theory Spec2Isabelle
  imports Complex_Main
begin

section \<open>Values, exceptions and data frames\<close>

text \<open>
  The scraper (\<open>claude_scraper_nbaapi_ver00.py\<close>, class \<open>NBADataScraper\<close>) works on pandas
  data frames handed over by the \<open>nba_api\<close> library. A numeric cell is a float64 value:
  a finite number (kept as the rational it denotes, with the negative zero apart), NaN (which
  is also how pandas stores a missing number) or one of the two infinities. The cells of an
  int64 column are read as the float64 values of the same integers, which is exact up to
  \<open>2 ^ 53\<close> in magnitude, as is float64 arithmetic on integers whose results stay in that
  range; larger integers are beyond this model.
\<close>

datatype num = Fin rat | NegZero | NaN | PInf | NInf

subsection \<open>IEEE 754 binary64 arithmetic\<close>

text \<open>\<open>2 ^ e\<close> for an integer exponent, and \<open>floor (log2 q)\<close> for a positive rational.\<close>

definition pow2 :: "int \<Rightarrow> rat" where
  "pow2 e = (if 0 \<le> e then 2 ^ nat e else 1 / 2 ^ nat (- e))"

function log2_up :: "rat \<Rightarrow> int" where
  "log2_up q = (if 2 \<le> q then log2_up (q / 2) + 1 else 0)"
  by pat_completeness auto
termination
proof (relation "measure (\<lambda>q. nat \<lfloor>q\<rfloor>)")
  show "wf (measure (\<lambda>q::rat. nat \<lfloor>q\<rfloor>))" by simp
next
  fix q :: rat
  assume "2 \<le> q"
  then have "\<lfloor>q / 2\<rfloor> < \<lfloor>q\<rfloor>"
    by (simp add: floor_less_iff) linarith
  moreover have "0 < \<lfloor>q\<rfloor>" using \<open>2 \<le> q\<close> by simp
  ultimately show "(q / 2, q) \<in> measure (\<lambda>q. nat \<lfloor>q\<rfloor>)" by simp
qed

declare log2_up.simps [simp del]

definition floor_log2 :: "rat \<Rightarrow> int" where
  "floor_log2 q =
     (if 1 \<le> q then log2_up q
      else (let k = log2_up (1 / q) in if q * pow2 k = 1 then - k else - k - 1))"

text \<open>Rounding to the nearest integer, a tie to the even one.\<close>

definition round_even :: "rat \<Rightarrow> int" where
  "round_even x =
     (let f = \<lfloor>x\<rfloor>; d = x - of_int f
      in if d < 1 / 2 then f else if 1 / 2 < d then f + 1 else if even f then f else f + 1)"

text \<open>
  The float64 nearest to a rational, ties to even: 53 significant bits, exponents down to
  the subnormals (multiples of \<open>2 ^ - 1074\<close>), an infinity from \<open>2 ^ 1024\<close> on. A negative
  number that rounds to zero gives the negative zero.
\<close>

definition round64_pos :: "rat \<Rightarrow> rat option" where
  "round64_pos q =
     (let e = floor_log2 q;
          p = max (e - 52) (- 1074);
          r = of_int (round_even (q / pow2 p)) * pow2 p
      in if pow2 1024 \<le> r then None else Some r)"

definition round64 :: "rat \<Rightarrow> num" where
  "round64 q =
     (if q = 0 then Fin 0
      else if 0 < q then (case round64_pos q of None \<Rightarrow> PInf | Some r \<Rightarrow> Fin r)
      else (case round64_pos (- q) of
              None \<Rightarrow> NInf
            | Some r \<Rightarrow> if r = 0 then NegZero else Fin (- r)))"




text \<open>Division: the sign of the result is the product of the signs of the operands, zeros
  included. A zero divisor gives NaN under a zero, an infinity under anything else; a
  quotient of nonzero finite numbers is the exact quotient rounded.\<close>

definition is_neg :: "num \<Rightarrow> bool" where
  "is_neg x =
     (case x of Fin a \<Rightarrow> a < 0 | NegZero \<Rightarrow> True | NInf \<Rightarrow> True | PInf \<Rightarrow> False | NaN \<Rightarrow> False)"

definition is_zero :: "num \<Rightarrow> bool" where
  "is_zero x = (x = Fin 0 \<or> x = NegZero)"

definition is_inf :: "num \<Rightarrow> bool" where
  "is_inf x = (x = PInf \<or> x = NInf)"

definition finite_value :: "num \<Rightarrow> rat" where
  "finite_value x = (case x of Fin a \<Rightarrow> a | NegZero \<Rightarrow> 0 | NaN \<Rightarrow> 0 | PInf \<Rightarrow> 0 | NInf \<Rightarrow> 0)"

definition num_div :: "num \<Rightarrow> num \<Rightarrow> num" where
  "num_div x y =
     (let negative = (is_neg x \<noteq> is_neg y)
      in if x = NaN \<or> y = NaN then NaN
         else if is_inf x then (if is_inf y then NaN else if negative then NInf else PInf)
         else if is_inf y then (if negative then NegZero else Fin 0)
         else if is_zero y then (if is_zero x then NaN else if negative then NInf else PInf)
         else if is_zero x then (if negative then NegZero else Fin 0)
         else round64 (finite_value x / finite_value y))"


fun num_ge :: "num \<Rightarrow> rat \<Rightarrow> bool" where
  "num_ge (Fin a) b = (b \<le> a)"
| "num_ge NegZero b = (b \<le> 0)"
| "num_ge NaN b = False"
| "num_ge PInf b = True"
| "num_ge NInf b = False"



subsection \<open>Exceptions, columns and frames\<close>

text \<open>
  Instances of Python's \<open>Exception\<close> (what \<open>except Exception\<close> catches). \<open>External\<close> stands
  for whatever a collaborator raises (a network error, a malformed response, an OS error),
  with its message.
\<close>

datatype exn = KeyError string | IndexError | TypeError | External string

definition bind_exn :: "exn + 'a \<Rightarrow> ('a \<Rightarrow> exn + 'b) \<Rightarrow> exn + 'b" where
  "bind_exn r f = (case r of Inl e \<Rightarrow> Inl e | Inr x \<Rightarrow> f x)"

text \<open>
  A column (a pandas Series) is numeric or of dtype object holding strings; a scalar read
  out of a column is a number or a string. A data frame is the list of its named columns,
  in column order.
\<close>

datatype column = NumCol "num list" | StrCol "string list"

datatype scalar = N num | S string

type_synonym DataFrame = "(string \<times> column) list"

fun col_len :: "column \<Rightarrow> nat" where
  "col_len (NumCol xs) = length xs"
| "col_len (StrCol ss) = length ss"

definition nrows :: "DataFrame \<Rightarrow> nat" where
  "nrows df = (case df of [] \<Rightarrow> 0 | (k, c) # rest \<Rightarrow> col_len c)"

text \<open>\<open>pd.DataFrame()\<close>: no columns, no rows.\<close>

definition DataFrame_new :: DataFrame where
  "DataFrame_new = []"

text \<open>\<open>df.empty\<close>: true when an axis has length zero.\<close>

definition df_empty :: "DataFrame \<Rightarrow> bool" where
  "df_empty df = (df = [] \<or> nrows df = 0)"

text \<open>What pandas guarantees of every frame: distinct column names here, and one length.\<close>

definition wf_frame :: "DataFrame \<Rightarrow> bool" where
  "wf_frame df = (distinct (map fst df) \<and> list_all (\<lambda>kc. col_len (snd kc) = nrows df) df)"

text \<open>\<open>name in df.columns\<close>, \<open>df[name]\<close> (KeyError when absent) and \<open>df[name] = column\<close>
  (in place when the column exists, appended as the last column otherwise; a Python dict
  takes \<open>d[key] = value\<close> the same way).\<close>

definition in_columns :: "string \<Rightarrow> DataFrame \<Rightarrow> bool" where
  "in_columns k df = (k \<in> set (map fst df))"

definition getitem :: "DataFrame \<Rightarrow> string \<Rightarrow> exn + column" where
  "getitem df k = (case map_of df k of None \<Rightarrow> Inl (KeyError k) | Some c \<Rightarrow> Inr c)"

fun setitem :: "('k \<times> 'v) list \<Rightarrow> 'k \<Rightarrow> 'v \<Rightarrow> ('k \<times> 'v) list" where
  "setitem [] k c = [(k, c)]"
| "setitem ((k', c') # rest) k c =
     (if k' = k then (k, c) # rest else (k', c') # setitem rest k c)"

text \<open>\<open>df[name] = scalar\<close> broadcasts the scalar over the index.\<close>

definition broadcast :: "DataFrame \<Rightarrow> int \<Rightarrow> column" where
  "broadcast df v = NumCol (replicate (nrows df) (Fin (of_int v)))"

subsection \<open>Series operations used by the scraper\<close>

text \<open>\<open>series >= b\<close>, elementwise; NaN compares false. Comparing a string with a number
  raises TypeError.\<close>

definition series_ge :: "column \<Rightarrow> rat \<Rightarrow> exn + bool list" where
  "series_ge c b =
     (case c of
        NumCol xs \<Rightarrow> Inr (map (\<lambda>x. num_ge x b) xs)
      | StrCol ss \<Rightarrow> if ss = [] then Inr [] else Inl TypeError)"

text \<open>\<open>.astype(int)\<close> of a boolean series, and \<open>+\<close> of two integer series on one index.\<close>

definition astype_int :: "bool list \<Rightarrow> int list" where
  "astype_int bs = map (\<lambda>b. if b then 1 else 0) bs"

definition series_add :: "int list \<Rightarrow> int list \<Rightarrow> int list" where
  "series_add xs ys = map (\<lambda>xy. fst xy + snd xy) (zip xs ys)"

definition int_column :: "int list \<Rightarrow> column" where
  "int_column xs = NumCol (map (\<lambda>i. Fin (of_int i)) xs)"

text \<open>\<open>/\<close> of two series: float64 true division, elementwise. A zero divisor raises
  nothing; an object column of strings raises TypeError.\<close>

definition series_div :: "column \<Rightarrow> column \<Rightarrow> exn + column" where
  "series_div c d =
     (case (c, d) of
        (NumCol xs, NumCol ys) \<Rightarrow> Inr (NumCol (map (\<lambda>xy. num_div (fst xy) (snd xy)) (zip xs ys)))
      | (StrCol ss, NumCol ys) \<Rightarrow> if ss = [] \<or> ys = [] then Inr (NumCol []) else Inl TypeError
      | (NumCol xs, StrCol ts) \<Rightarrow> if xs = [] \<or> ts = [] then Inr (NumCol []) else Inl TypeError
      | (StrCol ss, StrCol ts) \<Rightarrow> if ss = [] \<or> ts = [] then Inr (NumCol []) else Inl TypeError)"

subsection \<open>The derived columns of a player game log (source lines 186 to 203)\<close>

text \<open>One operand of the sum: \<open>(df[k] >= 10).astype(int)\<close>.\<close>

definition stat_ge10 :: "DataFrame \<Rightarrow> string \<Rightarrow> exn + int list" where
  "stat_ge10 df k =
     bind_exn (getitem df k) (\<lambda>c. bind_exn (series_ge c 10) (\<lambda>bs. Inr (astype_int bs)))"

text \<open>The sum of the five operands, evaluated left to right: PTS, REB, AST, STL, BLK.\<close>

definition categories_ge10 :: "DataFrame \<Rightarrow> exn + int list" where
  "categories_ge10 df =
     bind_exn (stat_ge10 df ''PTS'') (\<lambda>p.
     bind_exn (stat_ge10 df ''REB'') (\<lambda>r.
     bind_exn (stat_ge10 df ''AST'') (\<lambda>a.
     bind_exn (stat_ge10 df ''STL'') (\<lambda>s.
     bind_exn (stat_ge10 df ''BLK'') (\<lambda>b.
       Inr (series_add (series_add (series_add (series_add p r) a) s) b))))))"

text \<open>\<open>(sum >= n).astype(int)\<close> as a column.\<close>

definition at_least :: "int \<Rightarrow> int list \<Rightarrow> column" where
  "at_least n counts = int_column (astype_int (map (\<lambda>c. n \<le> c) counts))"

definition add_double_double :: "DataFrame \<Rightarrow> exn + DataFrame" where
  "add_double_double df =
     bind_exn (categories_ge10 df) (\<lambda>counts. Inr (setitem df ''DOUBLE_DOUBLE'' (at_least 2 counts)))"

definition add_triple_double :: "DataFrame \<Rightarrow> exn + DataFrame" where
  "add_triple_double df =
     bind_exn (categories_ge10 df) (\<lambda>counts. Inr (setitem df ''TRIPLE_DOUBLE'' (at_least 3 counts)))"

text \<open>\<open>if pct not in df.columns and made in df.columns and att in df.columns:
  df[pct] = df[made] / df[att]\<close>.\<close>

definition add_pct :: "string \<Rightarrow> string \<Rightarrow> string \<Rightarrow> DataFrame \<Rightarrow> exn + DataFrame" where
  "add_pct pct made att df =
     (if \<not> in_columns pct df \<and> in_columns made df \<and> in_columns att df
      then bind_exn (getitem df made) (\<lambda>m.
           bind_exn (getitem df att) (\<lambda>a.
           bind_exn (series_div m a) (\<lambda>q. Inr (setitem df pct q))))
      else Inr df)"

definition derived_columns :: "DataFrame \<Rightarrow> exn + DataFrame" where
  "derived_columns df =
     bind_exn (add_double_double df) (\<lambda>df1.
     bind_exn (add_triple_double df1) (\<lambda>df2.
     bind_exn (add_pct ''FG_PCT'' ''FGM'' ''FGA'' df2) (\<lambda>df3.
     add_pct ''FG3_PCT'' ''FG3M'' ''FG3A'' df3)))"

section \<open>The process around the scraper\<close>

text \<open>
  The module logs through \<open>logging\<close>, configured at level INFO: a record is its level, the
  text of the f-string as the source writes it, and the values of the expressions the
  f-string interpolates (left unrendered; the quotation marks the source puts around
  \<open>{player_name}\<close> are left out). \<open>logger.debug\<close> emits nothing at that level.
\<close>

datatype level = DEBUG | INFO | WARNING | ERROR

datatype arg = I int | T string | L "string list" | E exn | V scalar | Q rat

type_synonym log_record = "level \<times> string \<times> arg list"

text \<open>
  The world outside the object: the wall clock \<open>datetime.now()\<close> reads (seconds, exact),
  the log, the arguments of every \<open>time.sleep\<close> so far, the directories that exist, and
  the files written by \<open>to_csv\<close> (path and content, in order).
\<close>

record world =
  clock :: rat
  logged :: "log_record list"
  slept :: "rat list"
  dirs :: "string list"
  written :: "(string \<times> DataFrame) list"

definition logger :: "level \<Rightarrow> string \<Rightarrow> arg list \<Rightarrow> world \<Rightarrow> world" where
  "logger lvl template args w =
     (if lvl = DEBUG then w else w\<lparr>logged := logged w @ [(lvl, template, args)]\<rparr>)"

text \<open>An entry of the static player table of \<open>nba_api\<close> (\<open>p['id']\<close>, \<open>p['full_name']\<close>,
  \<open>p['first_name']\<close>, \<open>p['last_name']\<close>).\<close>

record player =
  id' :: int
  full_name :: string
  first_name :: string
  last_name :: string

text \<open>An entry of its static team table (\<open>team['id']\<close>, \<open>team['abbreviation']\<close>).\<close>

record team =
  id_of_team :: int
  abbreviation' :: string

text \<open>
  The collaborators, as the outcome of each call the scraper makes: the three endpoints of
  \<open>nba_api\<close> (an exception, or the data frames of the response), its static team table
  and player lookups, \<open>os.makedirs\<close> and \<open>DataFrame.to_csv\<close> (an exception or success),
  and how time passes: by how much \<open>time.sleep\<close> overruns the time asked for, and how
  long the rest of a rate-limit call takes.
\<close>

record env =
  PlayerGameLog :: "int \<Rightarrow> string \<Rightarrow> string \<Rightarrow> exn + DataFrame list"
  TeamGameLog :: "int \<Rightarrow> string \<Rightarrow> string \<Rightarrow> exn + DataFrame list"
  BoxScoreTraditionalV2 :: "string \<Rightarrow> exn + (exn + DataFrame) \<times> (exn + DataFrame)"
  get_teams :: "exn + team list"
  find_player_by_id :: "int \<Rightarrow> exn + player option"
  find_players_by_full_name :: "string \<Rightarrow> exn + player list"
  find_players_by_first_name :: "string \<Rightarrow> exn + player list"
  find_players_by_last_name :: "string \<Rightarrow> exn + player list"
  makedirs :: "string \<Rightarrow> exn option"
  to_csv :: "string \<Rightarrow> DataFrame \<Rightarrow> exn option"
  sleep_overrun :: rat
  lag :: rat

text \<open>The attributes of an \<open>NBADataScraper\<close>.\<close>

record NBADataScraper =
  season :: string
  season_type :: string
  data_dir :: string
  player_data_dir :: string
  team_data_dir :: string
  boxscore_data_dir :: string
  teams_data :: "team list"
  team_id_to_abbr :: "(int \<times> string) list"
  last_request_time :: rat
  request_delay :: rat

subsection \<open>Strings: \<open>str(int)\<close>, \<open>str.replace\<close>, \<open>str.split()\<close>, \<open>os.path.join\<close>\<close>

fun str_nat :: "nat \<Rightarrow> string" where
  "str_nat n = (if n < 10 then [''0123456789'' ! n] else str_nat (n div 10) @ [''0123456789'' ! (n mod 10)])"

declare str_nat.simps [simp del]

definition str_int :: "int \<Rightarrow> string" where
  "str_int i = (if i < 0 then CHR ''-'' # str_nat (nat (- i)) else str_nat (nat i))"

definition replace_char :: "char \<Rightarrow> char \<Rightarrow> string \<Rightarrow> string" where
  "replace_char a b s = map (\<lambda>c. if c = a then b else c) s"

text \<open>POSIX \<open>os.path.join\<close> of two components.\<close>

definition path_join :: "string \<Rightarrow> string \<Rightarrow> string" where
  "path_join a b =
     (if b \<noteq> [] \<and> hd b = CHR ''/'' then b
      else if a = [] \<or> last a = CHR ''/'' then a @ b
      else a @ ''/'' @ b)"

text \<open>A string is a list of code points below 256. \<open>str.isspace\<close> there (the ASCII
  whitespace and separators, NEL U+0085 and the no-break space U+00A0), and \<open>str.split()\<close>
  with no argument: the maximal runs of characters that are not whitespace.\<close>

definition is_space :: "char \<Rightarrow> bool" where
  "is_space c = (c \<in> set [CHR '' '', CHR 0x09, CHR 0x0A, CHR 0x0B, CHR 0x0C, CHR 0x0D,
                           CHR 0x1C, CHR 0x1D, CHR 0x1E, CHR 0x1F, CHR 0x85, CHR 0xA0])"

fun split_from :: "string \<Rightarrow> string \<Rightarrow> string list" where
  "split_from cur [] = (if cur = [] then [] else [cur])"
| "split_from cur (c # cs) =
     (if is_space c then (if cur = [] then split_from [] cs else cur # split_from [] cs)
      else split_from (cur @ [c]) cs)"

definition py_split :: "string \<Rightarrow> string list" where
  "py_split s = split_from [] s"

subsection \<open>\<open>__init__\<close> (source lines 25 to 62)\<close>

text \<open>Lines 42 to 45: the loop over the four directories. What \<open>os.makedirs\<close> raises
  leaves the constructor.\<close>

fun create_directories :: "env \<Rightarrow> string list \<Rightarrow> world \<Rightarrow> exn option \<times> world" where
  "create_directories ev [] w = (None, w)"
| "create_directories ev (directory # rest) w =
     (if directory \<in> set (dirs w) then create_directories ev rest w
      else (case makedirs ev directory of
              Some e \<Rightarrow> (Some e, w)
            | None \<Rightarrow>
                create_directories ev rest
                  (logger INFO ''Created directory: {directory}'' [T directory]
                     (w\<lparr>dirs := dirs w @ [directory]\<rparr>))))"

text \<open>The constructor, with the season and the season type as given by the caller.\<close>

definition NBADataScraper_init ::
  "env \<Rightarrow> string \<Rightarrow> string \<Rightarrow> world \<Rightarrow> (exn + NBADataScraper) \<times> world" where
  "NBADataScraper_init ev season_arg season_type_arg w =
     (let dir = ''nba_data'';
          player_dir = path_join dir ''players'';
          team_dir = path_join dir ''teams'';
          boxscore_dir = path_join dir ''boxscores''
      in case create_directories ev [dir, player_dir, team_dir, boxscore_dir] w of
           (Some e, w1) \<Rightarrow> (Inl e, w1)
         | (None, w1) \<Rightarrow>
             (let (teams, w2) =
                    (case get_teams ev of
                       Inr ts \<Rightarrow>
                         (ts, logger INFO ''Successfully loaded data for {len(self.teams_data)} teams''
                                [I (int (length ts))] w1)
                     | Inl e \<Rightarrow>
                         ([], logger ERROR ''Failed to load teams data: {str(e)}'' [E e] w1))
              in (Inr \<lparr>season = season_arg, season_type = season_type_arg, data_dir = dir,
                       player_data_dir = player_dir, team_data_dir = team_dir,
                       boxscore_data_dir = boxscore_dir, teams_data = teams,
                       team_id_to_abbr =
                         foldl (\<lambda>d t. setitem d (id_of_team t) (abbreviation' t)) [] teams,
                       last_request_time = clock w2, request_delay = 1\<rparr>, w2)))"

subsection \<open>\<open>_rate_limit_request\<close> (source lines 64 to 74)\<close>

text \<open>\<open>time.sleep(d)\<close> returns after \<open>d\<close> seconds and the overrun of the environment.\<close>

definition time_sleep :: "env \<Rightarrow> rat \<Rightarrow> world \<Rightarrow> world" where
  "time_sleep ev d w = w\<lparr>clock := clock w + d + sleep_overrun ev, slept := slept w @ [d]\<rparr>"

definition rate_limit_request :: "env \<Rightarrow> NBADataScraper \<Rightarrow> world \<Rightarrow> NBADataScraper \<times> world" where
  "rate_limit_request ev self w =
     (let current_time = clock w;
          elapsed = current_time - last_request_time self;
          w1 = (if elapsed < request_delay self
                then (let sleep_time = request_delay self - elapsed
                      in time_sleep ev sleep_time
                           (logger DEBUG ''Rate limiting: sleeping for {sleep_time:.2f} seconds''
                              [Q sleep_time] w))
                else w);
          w2 = w1\<lparr>clock := clock w1 + lag ev\<rparr>
      in (self\<lparr>last_request_time := clock w2\<rparr>, w2))"

subsection \<open>\<open>get_player_id_by_name\<close> (source lines 76 to 110)\<close>

text \<open>\<open>xs[0]\<close> of a Python list.\<close>

definition index0 :: "'a list \<Rightarrow> exn + 'a" where
  "index0 xs = (case xs of [] \<Rightarrow> Inl IndexError | x # rest \<Rightarrow> Inr x)"

text \<open>The search of lines 88 to 94: the full name, then the first token as a first name,
  then (with more than one token) the last token as a last name.\<close>

definition player_matches :: "env \<Rightarrow> string \<Rightarrow> exn + player list" where
  "player_matches ev player_name =
     bind_exn (find_players_by_full_name ev player_name) (\<lambda>m1.
       if m1 = [] then
         bind_exn (index0 (py_split player_name)) (\<lambda>first_token.
         bind_exn (find_players_by_first_name ev first_token) (\<lambda>m2.
           if m2 = [] \<and> length (py_split player_name) > 1
           then find_players_by_last_name ev (last (py_split player_name))
           else Inr m2))
       else Inr m1)"

definition get_player_id_by_name :: "env \<Rightarrow> string \<Rightarrow> world \<Rightarrow> int option \<times> world" where
  "get_player_id_by_name ev player_name w =
     (case player_matches ev player_name of
        Inr ms \<Rightarrow>
          (case ms of
             p # rest \<Rightarrow>
               (let w1 = (if length ms > 1
                          then logger WARNING ''Using the first match: {player_matches[0]['full_name']}''
                                 [T (full_name p)]
                                 (logger WARNING
                                    ''Multiple players found for {player_name}: {[p['full_name'] for p in player_matches]}''
                                    [T player_name, L (map full_name ms)] w)
                          else w);
                    player_id = id' p
                in (Some player_id,
                    logger INFO ''Found player ID {player_id} for {player_name}''
                      [I player_id, T player_name] w1))
           | [] \<Rightarrow>
               (None, logger ERROR ''No player found with name {player_name}'' [T player_name] w))
      | Inl e \<Rightarrow>
          (None, logger ERROR ''Error finding player ID for {player_name}: {str(e)}''
                   [T player_name, E e] w))"

subsection \<open>\<open>get_player_game_log\<close> (source lines 146 to 216)\<close>

text \<open>\<open>df.to_csv(file_path, index=False)\<close> and the log line after it.\<close>

definition save_csv :: "env \<Rightarrow> string \<Rightarrow> DataFrame \<Rightarrow> world \<Rightarrow> exn + world" where
  "save_csv ev file_path df w =
     (case to_csv ev file_path df of
        Some e \<Rightarrow> Inl e
      | None \<Rightarrow> Inr (w\<lparr>written := written w @ [(file_path, df)]\<rparr>))"

text \<open>Lines 179 to 183: the name for the file, with the inner bare \<open>except\<close>.\<close>

definition player_name_of :: "env \<Rightarrow> int \<Rightarrow> string" where
  "player_name_of ev player_id =
     (case find_player_by_id ev player_id of
        Inr (Some player_info) \<Rightarrow> full_name player_info
      | Inr None \<Rightarrow> ''Unknown_'' @ str_int player_id
      | Inl e \<Rightarrow> ''Unknown_'' @ str_int player_id)"

text \<open>The body of the \<open>try\<close>: an exception leaves it with the world as it then is.\<close>

definition player_game_log_try ::
  "env \<Rightarrow> NBADataScraper \<Rightarrow> int \<Rightarrow> bool \<Rightarrow> world \<Rightarrow> (exn + DataFrame) \<times> NBADataScraper \<times> world" where
  "player_game_log_try ev self player_id save w =
     (let w1 = logger INFO ''Fetching game log for player ID {player_id} for season {self.season}''
                 [I player_id, T (season self)] w;
          (self1, w2) = rate_limit_request ev self w1
      in case bind_exn (PlayerGameLog ev player_id (season self) (season_type self)) index0 of
           Inl e \<Rightarrow> (Inl e, self1, w2)
         | Inr df \<Rightarrow>
             if df_empty df
             then (Inr DataFrame_new, self1,
                   logger WARNING ''No game data found for player ID {player_id} in {self.season} season''
                     [I player_id, T (season self)] w2)
             else
               (let df1 = setitem df ''PLAYER_ID'' (broadcast df player_id);
                    player_name = player_name_of ev player_id
                in case derived_columns df1 of
                     Inl e \<Rightarrow> (Inl e, self1, w2)
                   | Inr df2 \<Rightarrow>
                       (let file_path = path_join (player_data_dir self)
                                          (replace_char CHR '' '' CHR ''_'' player_name @ ''_games.csv'')
                        in case (if save
                                 then (case save_csv ev file_path df2 w2 of
                                         Inl e \<Rightarrow> Inl e
                                       | Inr w3 \<Rightarrow>
                                           Inr (logger INFO ''Saved player game log to {file_path}''
                                                  [T file_path] w3))
                                 else Inr w2) of
                             Inl e \<Rightarrow> (Inl e, self1, w2)
                           | Inr w4 \<Rightarrow>
                               (Inr df2, self1,
                                logger INFO ''Successfully fetched {len(df)} games for player ID {player_id}''
                                  [I (int (nrows df2)), I player_id] w4))))"

definition get_player_game_log ::
  "env \<Rightarrow> NBADataScraper \<Rightarrow> int \<Rightarrow> bool \<Rightarrow> world \<Rightarrow> DataFrame \<times> NBADataScraper \<times> world" where
  "get_player_game_log ev self player_id save w =
     (case player_game_log_try ev self player_id save w of
        (Inr df, self1, w1) \<Rightarrow> (df, self1, w1)
      | (Inl e, self1, w1) \<Rightarrow>
          (DataFrame_new, self1,
           logger ERROR ''Error fetching game log for player ID {player_id}: {str(e)}''
             [I player_id, E e] w1))"

subsection \<open>\<open>get_team_game_log\<close> (source lines 218 to 264)\<close>

text \<open>\<open>self.team_id_to_abbr.get(team_id, f"Unknown_{team_id}")\<close>.\<close>

definition team_abbr_of :: "NBADataScraper \<Rightarrow> int \<Rightarrow> string" where
  "team_abbr_of self team_id =
     (case map_of (team_id_to_abbr self) team_id of
        Some abbr \<Rightarrow> abbr
      | None \<Rightarrow> ''Unknown_'' @ str_int team_id)"

definition team_game_log_try ::
  "env \<Rightarrow> NBADataScraper \<Rightarrow> int \<Rightarrow> bool \<Rightarrow> world \<Rightarrow> (exn + DataFrame) \<times> NBADataScraper \<times> world" where
  "team_game_log_try ev self team_id save w =
     (let w1 = logger INFO ''Fetching game log for team ID {team_id} for season {self.season}''
                 [I team_id, T (season self)] w;
          (self1, w2) = rate_limit_request ev self w1
      in case bind_exn (TeamGameLog ev team_id (season self) (season_type self)) index0 of
           Inl e \<Rightarrow> (Inl e, self1, w2)
         | Inr df \<Rightarrow>
             if df_empty df
             then (Inr DataFrame_new, self1,
                   logger WARNING ''No game data found for team ID {team_id} in {self.season} season''
                     [I team_id, T (season self)] w2)
             else
               (let df1 = setitem df ''TEAM_ID'' (broadcast df team_id);
                    team_abbr = team_abbr_of self team_id;
                    file_path = path_join (team_data_dir self) (team_abbr @ ''_games.csv'')
                in case (if save
                         then (case save_csv ev file_path df1 w2 of
                                 Inl e \<Rightarrow> Inl e
                               | Inr w3 \<Rightarrow>
                                   Inr (logger INFO ''Saved team game log to {file_path}''
                                          [T file_path] w3))
                         else Inr w2) of
                     Inl e \<Rightarrow> (Inl e, self1, w2)
                   | Inr w4 \<Rightarrow>
                       (Inr df1, self1,
                        logger INFO ''Successfully fetched {len(df)} games for team ID {team_id}''
                          [I (int (nrows df1)), I team_id] w4)))"

definition get_team_game_log ::
  "env \<Rightarrow> NBADataScraper \<Rightarrow> int \<Rightarrow> bool \<Rightarrow> world \<Rightarrow> DataFrame \<times> NBADataScraper \<times> world" where
  "get_team_game_log ev self team_id save w =
     (case team_game_log_try ev self team_id save w of
        (Inr df, self1, w1) \<Rightarrow> (df, self1, w1)
      | (Inl e, self1, w1) \<Rightarrow>
          (DataFrame_new, self1,
           logger ERROR ''Error fetching game log for team ID {team_id}: {str(e)}''
             [I team_id, E e] w1))"

subsection \<open>\<open>get_box_score\<close> (source lines 266 to 308)\<close>

text \<open>The dictionary \<open>{'player_stats': ..., 'team_stats': ...}\<close> the method returns.\<close>

record BoxScore =
  player_stats :: DataFrame
  team_stats :: DataFrame

text \<open>Lines 282 to 286: the request, then the two \<open>get_data_frame()\<close> calls in order.\<close>

definition box_score_frames :: "env \<Rightarrow> string \<Rightarrow> exn + DataFrame \<times> DataFrame" where
  "box_score_frames ev game_id =
     bind_exn (BoxScoreTraditionalV2 ev game_id) (\<lambda>box_score.
     bind_exn (fst box_score) (\<lambda>ps.
     bind_exn (snd box_score) (\<lambda>ts. Inr (ps, ts))))"

definition box_score_try ::
  "env \<Rightarrow> NBADataScraper \<Rightarrow> string \<Rightarrow> bool \<Rightarrow> world \<Rightarrow> (exn + BoxScore) \<times> NBADataScraper \<times> world" where
  "box_score_try ev self game_id save w =
     (let w1 = logger INFO ''Fetching box score for game ID {game_id}'' [T game_id] w;
          (self1, w2) = rate_limit_request ev self w1
      in case box_score_frames ev game_id of
           Inl e \<Rightarrow> (Inl e, self1, w2)
         | Inr (ps, ts) \<Rightarrow>
             if df_empty ps \<or> df_empty ts
             then (Inr \<lparr>player_stats = DataFrame_new, team_stats = DataFrame_new\<rparr>, self1,
                   logger WARNING ''No box score data found for game ID {game_id}'' [T game_id] w2)
             else
               (let player_file_path = path_join (boxscore_data_dir self)
                                         (''game_'' @ game_id @ ''_player_stats.csv'');
                    team_file_path = path_join (boxscore_data_dir self)
                                       (''game_'' @ game_id @ ''_team_stats.csv'')
                in case (if save
                         then (case save_csv ev player_file_path ps w2 of
                                 Inl e \<Rightarrow> (Some e, w2)
                               | Inr w3 \<Rightarrow>
                                   (case save_csv ev team_file_path ts w3 of
                                      Inl e \<Rightarrow> (Some e, w3)
                                    | Inr w4 \<Rightarrow>
                                        (None,
                                         logger INFO ''Saved team box score to {team_file_path}''
                                           [T team_file_path]
                                           (logger INFO ''Saved player box score to {player_file_path}''
                                              [T player_file_path] w4))))
                         else (None, w2)) of
                     (Some e, w5) \<Rightarrow> (Inl e, self1, w5)
                   | (None, w5) \<Rightarrow>
                       (Inr \<lparr>player_stats = ps, team_stats = ts\<rparr>, self1,
                        logger INFO ''Successfully fetched box score for game ID {game_id}''
                          [T game_id] w5)))"

definition get_box_score ::
  "env \<Rightarrow> NBADataScraper \<Rightarrow> string \<Rightarrow> bool \<Rightarrow> world \<Rightarrow> BoxScore \<times> NBADataScraper \<times> world" where
  "get_box_score ev self game_id save w =
     (case box_score_try ev self game_id save w of
        (Inr bs, self1, w1) \<Rightarrow> (bs, self1, w1)
      | (Inl e, self1, w1) \<Rightarrow>
          (\<lparr>player_stats = DataFrame_new, team_stats = DataFrame_new\<rparr>, self1,
           logger ERROR ''Error fetching box score for game ID {game_id}: {str(e)}''
             [T game_id, E e] w1))"

subsection \<open>\<open>spot_check_game\<close> (source lines 597 to 645)\<close>

text \<open>\<open>series.iloc[i]\<close> and \<open>series.values[i]\<close> for \<open>i\<close> from the front: IndexError past the end.\<close>

definition iloc :: "column \<Rightarrow> nat \<Rightarrow> exn + scalar" where
  "iloc c i =
     (case c of
        NumCol xs \<Rightarrow> if i < length xs then Inr (N (xs ! i)) else Inl IndexError
      | StrCol ss \<Rightarrow> if i < length ss then Inr (S (ss ! i)) else Inl IndexError)"




















section \<open>Vocabulary of the statements\<close>

text \<open>The cell of column \<open>k\<close> in row \<open>i\<close>, when the frame has both.\<close>

definition cell :: "DataFrame \<Rightarrow> string \<Rightarrow> nat \<Rightarrow> scalar option" where
  "cell df k i = (case bind_exn (getitem df k) (\<lambda>c. iloc c i) of Inl e \<Rightarrow> None | Inr v \<Rightarrow> Some v)"

text \<open>Row \<open>i\<close> reaches 10 in category \<open>k\<close>; the number of the five categories it reaches.\<close>

definition reached :: "DataFrame \<Rightarrow> nat \<Rightarrow> string \<Rightarrow> bool" where
  "reached df i k = (case cell df k i of Some (N x) \<Rightarrow> num_ge x 10 | Some (S s) \<Rightarrow> False | None \<Rightarrow> False)"

definition categories_reached :: "DataFrame \<Rightarrow> nat \<Rightarrow> nat" where
  "categories_reached df i = length (filter (reached df i) [''PTS'', ''REB'', ''AST'', ''STL'', ''BLK''])"

text \<open>Float division of finite numbers, zero operands included.\<close>

definition quotient :: "rat \<Rightarrow> rat \<Rightarrow> num" where
  "quotient m a =
     (if a = 0 then (if m = 0 then NaN else if 0 < m then PInf else NInf)
      else if m = 0 then (if a < 0 then NegZero else Fin 0)
      else round64 (m / a))"

text \<open>Column \<open>k\<close> is there and numeric; column \<open>k\<close> is not an object column of strings
  (it is numeric, or not there).\<close>

definition numeric :: "DataFrame \<Rightarrow> string \<Rightarrow> bool" where
  "numeric df k =
     (case getitem df k of Inr (NumCol xs) \<Rightarrow> True | Inr (StrCol ss) \<Rightarrow> False | Inl e \<Rightarrow> False)"

definition not_text :: "DataFrame \<Rightarrow> string \<Rightarrow> bool" where
  "not_text df k =
     (case getitem df k of Inr (NumCol xs) \<Rightarrow> True | Inr (StrCol ss) \<Rightarrow> False | Inl e \<Rightarrow> True)"

text \<open>The file the player game log is saved to (source lines 179 to 183 and 207), and the
  file the team game log is saved to (lines 251 and 255).\<close>

definition player_file_path :: "env \<Rightarrow> NBADataScraper \<Rightarrow> int \<Rightarrow> string" where
  "player_file_path ev self player_id =
     path_join (player_data_dir self)
       (replace_char CHR '' '' CHR ''_'' (player_name_of ev player_id) @ ''_games.csv'')"

definition team_file_path :: "NBADataScraper \<Rightarrow> int \<Rightarrow> string" where
  "team_file_path self team_id =
     path_join (team_data_dir self) (team_abbr_of self team_id @ ''_games.csv'')"

text \<open>The levels of the records logged between two worlds.\<close>

definition new_levels :: "world \<Rightarrow> world \<Rightarrow> level list" where
  "new_levels w w' = map fst (drop (length (logged w)) (logged w'))"



subsection \<open>Concrete collaborators and inputs\<close>

text \<open>Collaborators that answer every call with an empty result, a scraper as
  \<open>__init__\<close> leaves it for season 2024-25, and a fresh world.\<close>

definition quiet_env :: env where
  "quiet_env =
     \<lparr>PlayerGameLog = (\<lambda>player_id season season_type. Inr []),
      TeamGameLog = (\<lambda>team_id season season_type. Inr []),
      BoxScoreTraditionalV2 = (\<lambda>game_id. Inr (Inr [], Inr [])),
      get_teams = Inr [],
      find_player_by_id = (\<lambda>player_id. Inr None),
      find_players_by_full_name = (\<lambda>name. Inr []),
      find_players_by_first_name = (\<lambda>name. Inr []),
      find_players_by_last_name = (\<lambda>name. Inr []),
      makedirs = (\<lambda>directory. None),
      to_csv = (\<lambda>file_path df. None),
      sleep_overrun = 0,
      lag = 0\<rparr>"

text \<open>The same collaborators, with a game-log endpoint that answers with one frame.\<close>

definition player_log_env :: "DataFrame \<Rightarrow> env" where
  "player_log_env df = quiet_env\<lparr>PlayerGameLog := (\<lambda>player_id season season_type. Inr [df])\<rparr>"

definition team_log_env :: "DataFrame \<Rightarrow> env" where
  "team_log_env df = quiet_env\<lparr>TeamGameLog := (\<lambda>team_id season season_type. Inr [df])\<rparr>"

definition scraper0 :: NBADataScraper where
  "scraper0 =
     \<lparr>season = ''2024-25'', season_type = ''Regular Season'', data_dir = ''nba_data'',
      player_data_dir = ''nba_data/players'', team_data_dir = ''nba_data/teams'',
      boxscore_data_dir = ''nba_data/boxscores'', teams_data = [], team_id_to_abbr = [],
      last_request_time = 0, request_delay = 1\<rparr>"

definition world0 :: world where
  "world0 = \<lparr>clock = 0, logged = [], slept = [], dirs = [], written = []\<rparr>"

text \<open>Two games: 10 points, 10 rebounds and 3 assists; 10 points, 10 rebounds and 10 assists.\<close>

definition two_games :: DataFrame where
  "two_games =
     [(''PTS'', NumCol [Fin 10, Fin 10]), (''REB'', NumCol [Fin 10, Fin 10]),
      (''AST'', NumCol [Fin 3, Fin 10]), (''STL'', NumCol [Fin 0, Fin 0]),
      (''BLK'', NumCol [Fin 0, Fin 0])]"

text \<open>Three games with a zero-attempt row each way, no FG_PCT column and an FG3_PCT column.\<close>

definition shooting_log :: DataFrame where
  "shooting_log =
     [(''PTS'', NumCol [Fin 12, Fin 0, Fin 20]), (''REB'', NumCol [Fin 4, Fin 1, Fin 11]),
      (''AST'', NumCol [Fin 2, Fin 0, Fin 5]), (''STL'', NumCol [Fin 1, Fin 0, Fin 0]),
      (''BLK'', NumCol [Fin 0, Fin 0, Fin 1]),
      (''FGM'', NumCol [Fin 5, Fin 0, Fin 7]), (''FGA'', NumCol [Fin 0, Fin 0, Fin 15]),
      (''FG3M'', NumCol [Fin 0, Fin 0, Fin 2]), (''FG3A'', NumCol [Fin 0, Fin 0, Fin 4]),
      (''FG3_PCT'', NumCol [Fin 0, Fin 0, Fin (1 / 2)])]"

text \<open>Collaborators whose three endpoints raise, a response without a PTS column, and a
  box score whose team table is empty.\<close>

definition failing_env :: env where
  "failing_env =
     quiet_env\<lparr>PlayerGameLog := (\<lambda>player_id season season_type. Inl (External ''Read timed out'')),
               TeamGameLog := (\<lambda>team_id season season_type. Inl (External ''Read timed out'')),
               BoxScoreTraditionalV2 := (\<lambda>game_id. Inl (External ''Expecting value''))\<rparr>"

definition no_points :: DataFrame where
  "no_points = [(''REB'', NumCol [Fin 3])]"

definition one_table_env :: env where
  "one_table_env =
     quiet_env\<lparr>BoxScoreTraditionalV2 :=
                 (\<lambda>game_id. Inr (Inr [(''TEAM_ID'', NumCol [Fin 1]), (''PTS'', NumCol [Fin 30])],
                                 Inr []))\<rparr>"

text \<open>A team game log of two games, with the column names of the endpoint.\<close>

definition team_log :: DataFrame where
  "team_log =
     [(''Team_ID'', NumCol [Fin 1610612747, Fin 1610612747]),
      (''Game_ID'', StrCol [''0022400061'', ''0022400075'']),
      (''PTS'', NumCol [Fin 110, Fin 123]), (''REB'', NumCol [Fin 44, Fin 41]),
      (''AST'', NumCol [Fin 22, Fin 30]), (''STL'', NumCol [Fin 10, Fin 7]),
      (''BLK'', NumCol [Fin 5, Fin 10]), (''FGM'', NumCol [Fin 42, Fin 45]), (''FGA'', NumCol [Fin 95, Fin 88])]"

text \<open>The same endpoint with a disk that is full, and a response that already carries a
  TEAM_ID column.\<close>

definition full_disk_env :: env where
  "full_disk_env =
     (team_log_env team_log)\<lparr>to_csv := (\<lambda>file_path df. Some (External ''No space left on device''))\<rparr>"

definition tagged_log :: DataFrame where
  "tagged_log = [(''TEAM_ID'', NumCol [Fin 5]), (''PTS'', NumCol [Fin 99])]"

text \<open>Four players and a static table that finds them by one name each.\<close>

definition lebron :: player where
  "lebron = \<lparr>id' = 2544, full_name = ''LeBron James'', first_name = ''LeBron'', last_name = ''James''\<rparr>"

definition luka :: player where
  "luka = \<lparr>id' = 1629029, full_name = ''Luka Doncic'', first_name = ''Luka'', last_name = ''Doncic''\<rparr>"

definition stephen :: player where
  "stephen = \<lparr>id' = 201939, full_name = ''Stephen Curry'', first_name = ''Stephen'', last_name = ''Curry''\<rparr>"

definition seth :: player where
  "seth = \<lparr>id' = 203552, full_name = ''Seth Curry'', first_name = ''Seth'', last_name = ''Curry''\<rparr>"

definition roster_env :: env where
  "roster_env =
     quiet_env\<lparr>find_players_by_full_name := (\<lambda>n. if n = ''LeBron James'' then Inr [lebron] else Inr []),
               find_players_by_first_name := (\<lambda>n. if n = ''Luka'' then Inr [luka] else Inr []),
               find_players_by_last_name := (\<lambda>n. if n = ''Curry'' then Inr [stephen, seth] else Inr [])\<rparr>"

text \<open>
  The searches as \<open>nba_api\<close> makes them (\<open>_find_players\<close> of its \<open>static/players.py\<close>): the
  entries of the table, in table order, in whose field \<open>re.search(pattern, field,
  flags=re.I)\<close> finds the pattern. For a pattern without regular-expression operators and
  ASCII names that is: the field contains the pattern, letter case apart. The table below
  opens as the table of the library does and goes on with the four players above.
\<close>

definition lower :: "char \<Rightarrow> char" where
  "lower c =
     (case map_of (zip ''ABCDEFGHIJKLMNOPQRSTUVWXYZ'' ''abcdefghijklmnopqrstuvwxyz'') c of
        Some l \<Rightarrow> l
      | None \<Rightarrow> c)"

fun contains :: "string \<Rightarrow> string \<Rightarrow> bool" where
  "contains [] pattern = (pattern = [])"
| "contains (c # cs) pattern = (take (length pattern) (c # cs) = pattern \<or> contains cs pattern)"

definition find_players :: "player list \<Rightarrow> (player \<Rightarrow> string) \<Rightarrow> string \<Rightarrow> exn + player list" where
  "find_players table field pattern =
     Inr (filter (\<lambda>p. contains (map lower (field p)) (map lower pattern)) table)"

definition alaa :: player where
  "alaa = \<lparr>id' = 76001, full_name = ''Alaa Abdelnaby'', first_name = ''Alaa'', last_name = ''Abdelnaby''\<rparr>"

definition zaid :: player where
  "zaid = \<lparr>id' = 76002, full_name = ''Zaid Abdul-Aziz'', first_name = ''Zaid'', last_name = ''Abdul-Aziz''\<rparr>"

definition kareem :: player where
  "kareem = \<lparr>id' = 76003, full_name = ''Kareem Abdul-Jabbar'', first_name = ''Kareem'',
              last_name = ''Abdul-Jabbar''\<rparr>"

definition players_table :: "player list" where
  "players_table = [alaa, zaid, kareem, seth, stephen, luka, lebron]"

definition library_env :: env where
  "library_env =
     quiet_env\<lparr>find_players_by_full_name := find_players players_table full_name,
               find_players_by_first_name := find_players players_table first_name,
               find_players_by_last_name := find_players players_table last_name\<rparr>"




section \<open>Data frame lemmas\<close>

lemma getitem_setitem:
  "getitem (setitem df k c) k' = (if k' = k then Inr c else getitem df k')"
  by (induction df) (auto simp: getitem_def)

lemma columns_setitem:
  "map fst (setitem df k c) = (if k \<in> set (map fst df) then map fst df else map fst df @ [k])"
  by (induction df) (force simp: image_iff)+

lemma stat_ge10_setitem:
  "k' \<noteq> k \<Longrightarrow> stat_ge10 (setitem df k c) k' = stat_ge10 df k'"
  by (simp add: stat_ge10_def getitem_setitem)

lemma categories_ge10_setitem:
  "k \<notin> set [''PTS'', ''REB'', ''AST'', ''STL'', ''BLK''] \<Longrightarrow>
   categories_ge10 (setitem df k c) = categories_ge10 df"
  using stat_ge10_setitem[of _ k df c] by (auto simp: categories_ge10_def)

lemma add_pct_getitem:
  "add_pct pct made att df = Inr df' \<Longrightarrow> k \<noteq> pct \<Longrightarrow> getitem df' k = getitem df k"
  by (auto simp: add_pct_def bind_exn_def getitem_setitem split: if_splits sum.splits)

lemma derived_columns_flags:
  assumes "derived_columns df = Inr out"
  shows "\<exists>counts. categories_ge10 df = Inr counts \<and>
           getitem out ''DOUBLE_DOUBLE'' = Inr (at_least 2 counts) \<and>
           getitem out ''TRIPLE_DOUBLE'' = Inr (at_least 3 counts)"
proof -
  from assms obtain df1 df2 df3 where
    1: "add_double_double df = Inr df1" and
    2: "add_triple_double df1 = Inr df2" and
    3: "add_pct ''FG_PCT'' ''FGM'' ''FGA'' df2 = Inr df3" and
    4: "add_pct ''FG3_PCT'' ''FG3M'' ''FG3A'' df3 = Inr out"
    by (auto simp: derived_columns_def bind_exn_def split: sum.splits)
  from 1 obtain counts where c: "categories_ge10 df = Inr counts"
    and df1: "df1 = setitem df ''DOUBLE_DOUBLE'' (at_least 2 counts)"
    by (auto simp: add_double_double_def bind_exn_def split: sum.splits)
  have c1: "categories_ge10 df1 = Inr counts"
    using c by (simp add: df1 categories_ge10_setitem)
  from 2 c1 have df2: "df2 = setitem df1 ''TRIPLE_DOUBLE'' (at_least 3 counts)"
    by (auto simp: add_triple_double_def bind_exn_def split: sum.splits)
  have "getitem out ''DOUBLE_DOUBLE'' = getitem df2 ''DOUBLE_DOUBLE''"
    using add_pct_getitem[OF 4, of "''DOUBLE_DOUBLE''"] add_pct_getitem[OF 3, of "''DOUBLE_DOUBLE''"] by simp
  moreover have "getitem out ''TRIPLE_DOUBLE'' = getitem df2 ''TRIPLE_DOUBLE''"
    using add_pct_getitem[OF 4, of "''TRIPLE_DOUBLE''"] add_pct_getitem[OF 3, of "''TRIPLE_DOUBLE''"] by simp
  ultimately show ?thesis using c by (simp add: df2 df1 getitem_setitem)
qed

lemma player_log_nonempty:
  assumes "fst (get_player_game_log ev self player_id save w) = out" and "out \<noteq> []"
  shows "\<exists>raw others. PlayerGameLog ev player_id (season self) (season_type self) = Inr (raw # others) \<and>
           \<not> df_empty raw \<and>
           derived_columns (setitem raw ''PLAYER_ID'' (broadcast raw player_id)) = Inr out"
  using assms
  unfolding get_player_game_log_def player_game_log_try_def
  by (auto simp: Let_def bind_exn_def index0_def DataFrame_new_def
           split: prod.splits sum.splits list.splits if_splits)


lemma wf_col_len:
  "wf_frame df \<Longrightarrow> getitem df k = Inr c \<Longrightarrow> col_len c = nrows df"
  by (auto simp: wf_frame_def getitem_def list_all_iff split: option.splits dest!: map_of_SomeD)

lemma stat_ge10_rows:
  assumes "wf_frame df" and "stat_ge10 df k = Inr xs"
  shows "length xs = nrows df \<and> (\<forall>i<nrows df. xs ! i = (if reached df i k then 1 else 0))"
proof -
  from assms(2) obtain c bs where c: "getitem df k = Inr c" and bs: "series_ge c 10 = Inr bs"
    and xs: "xs = astype_int bs"
    by (auto simp: stat_ge10_def bind_exn_def split: sum.splits)
  have len: "col_len c = nrows df" using wf_col_len[OF assms(1) c] .
  show ?thesis
  proof (cases c)
    case (NumCol ns)
    with bs have "bs = map (\<lambda>x. num_ge x 10) ns" by (simp add: series_ge_def)
    with NumCol len c show ?thesis
      by (auto simp: xs astype_int_def reached_def cell_def bind_exn_def iloc_def)
  next
    case (StrCol ss)
    with bs have "ss = []" "bs = []" by (auto simp: series_ge_def split: if_splits)
    with StrCol len show ?thesis by (simp add: xs astype_int_def)
  qed
qed

lemma categories_ge10_rows:
  assumes "wf_frame df" and "categories_ge10 df = Inr counts"
  shows "length counts = nrows df \<and> (\<forall>i<nrows df. counts ! i = int (categories_reached df i))"
proof -
  from assms(2) obtain p r a s b where
    p: "stat_ge10 df ''PTS'' = Inr p" and r: "stat_ge10 df ''REB'' = Inr r" and
    a: "stat_ge10 df ''AST'' = Inr a" and s: "stat_ge10 df ''STL'' = Inr s" and
    b: "stat_ge10 df ''BLK'' = Inr b" and
    counts: "counts = series_add (series_add (series_add (series_add p r) a) s) b"
    by (auto simp: categories_ge10_def bind_exn_def split: sum.splits)
  note P = stat_ge10_rows[OF assms(1) p] and R = stat_ge10_rows[OF assms(1) r]
    and A = stat_ge10_rows[OF assms(1) a] and S = stat_ge10_rows[OF assms(1) s]
    and B = stat_ge10_rows[OF assms(1) b]
  have len: "length counts = nrows df"
    using P R A S B by (simp add: counts series_add_def)
  moreover have "counts ! i = int (categories_reached df i)" if "i < nrows df" for i
    using that P R A S B by (simp add: counts series_add_def categories_reached_def)
  ultimately show ?thesis by blast
qed

lemma cell_at_least:
  "getitem df k = Inr (at_least n counts) \<Longrightarrow> i < length counts \<Longrightarrow>
   cell df k i = Some (N (Fin (if n \<le> counts ! i then 1 else 0)))"
  by (simp add: cell_def bind_exn_def at_least_def int_column_def astype_int_def iloc_def)

lemma cell_at_least_iff:
  assumes "getitem df k = Inr (at_least n counts)"
  shows "cell df k i = Some (N (Fin 1)) \<longleftrightarrow> i < length counts \<and> n \<le> counts ! i"
  using assms
  by (auto simp: cell_def bind_exn_def at_least_def int_column_def astype_int_def iloc_def)

lemma in_columns_getitem:
  "in_columns k df \<longleftrightarrow> (\<exists>c. getitem df k = Inr c)"
proof -
  have "(k \<in> fst ` set df) = (map_of df k \<noteq> None)"
    by (simp add: map_of_eq_None_iff)
  then show ?thesis
    by (auto simp: in_columns_def getitem_def split: option.splits)
qed

lemma in_columns_cong:
  "getitem df k = getitem df' k \<Longrightarrow> in_columns k df = in_columns k df'"
  by (simp add: in_columns_getitem)

lemma add_pct_result:
  assumes "add_pct pct made att df = Inr df'"
  shows "if \<not> in_columns pct df \<and> in_columns made df \<and> in_columns att df
         then \<exists>m a q. getitem df made = Inr m \<and> getitem df att = Inr a \<and>
                series_div m a = Inr q \<and> getitem df' pct = Inr q
         else getitem df' pct = getitem df pct"
  using assms
  by (auto simp: add_pct_def bind_exn_def getitem_setitem split: if_splits sum.splits)

lemma derived_columns_pct:
  assumes "derived_columns df = Inr out"
  shows "\<exists>df2 df3.
           (\<forall>k. k \<noteq> ''DOUBLE_DOUBLE'' \<and> k \<noteq> ''TRIPLE_DOUBLE'' \<longrightarrow> getitem df2 k = getitem df k) \<and>
           add_pct ''FG_PCT'' ''FGM'' ''FGA'' df2 = Inr df3 \<and>
           add_pct ''FG3_PCT'' ''FG3M'' ''FG3A'' df3 = Inr out"
proof -
  from assms obtain c2 c3 df3 where
    fg: "add_pct ''FG_PCT'' ''FGM'' ''FGA''
           (setitem (setitem df ''DOUBLE_DOUBLE'' (at_least 2 c2)) ''TRIPLE_DOUBLE'' (at_least 3 c3)) = Inr df3"
    and fg3: "add_pct ''FG3_PCT'' ''FG3M'' ''FG3A'' df3 = Inr out"
    by (auto simp: derived_columns_def add_double_double_def add_triple_double_def bind_exn_def
          split: sum.splits)
  show ?thesis
    using fg fg3
    by (intro exI[of _ "setitem (setitem df ''DOUBLE_DOUBLE'' (at_least 2 c2)) ''TRIPLE_DOUBLE'' (at_least 3 c3)"]
          exI[of _ df3]) (simp add: getitem_setitem)
qed

lemma cell_series_div:
  assumes "getitem df made = Inr m" and "getitem df att = Inr a" and "series_div m a = Inr q"
    and "getitem df' pct = Inr q"
    and "cell df made i = Some (N x)" and "cell df att i = Some (N y)"
  shows "cell df' pct i = Some (N (num_div x y))"
  using assms
  by (auto simp: cell_def bind_exn_def iloc_def series_div_def split: column.splits if_splits)

lemma numeric_getitem:
  "numeric df k \<longleftrightarrow> (\<exists>xs. getitem df k = Inr (NumCol xs))"
  by (auto simp: numeric_def split: sum.splits column.splits)

lemma not_text_getitem:
  "not_text df k \<longleftrightarrow> (\<forall>ss. getitem df k \<noteq> Inr (StrCol ss))"
  by (auto simp: not_text_def split: sum.splits column.splits)

lemma stat_ge10_numeric:
  "numeric df k \<Longrightarrow> \<exists>xs. stat_ge10 df k = Inr xs"
  by (auto simp: numeric_getitem stat_ge10_def bind_exn_def series_ge_def)

lemma categories_ge10_numeric:
  assumes "list_all (numeric df) [''PTS'', ''REB'', ''AST'', ''STL'', ''BLK'']"
  shows "\<exists>counts. categories_ge10 df = Inr counts"
proof -
  from assms have "numeric df ''PTS''" "numeric df ''REB''" "numeric df ''AST''" "numeric df ''STL''"
    "numeric df ''BLK''"
    by simp_all
  from this[THEN stat_ge10_numeric] obtain p r a s b where
    "stat_ge10 df ''PTS'' = Inr p" "stat_ge10 df ''REB'' = Inr r" "stat_ge10 df ''AST'' = Inr a"
    "stat_ge10 df ''STL'' = Inr s" "stat_ge10 df ''BLK'' = Inr b"
    by (elim exE)
  then show ?thesis by (simp add: categories_ge10_def bind_exn_def)
qed

lemma add_pct_succeeds:
  assumes "not_text df made" and "not_text df att"
  shows "\<exists>df'. add_pct pct made att df = Inr df'"
proof (cases "\<not> in_columns pct df \<and> in_columns made df \<and> in_columns att df")
  case True
  then obtain m a where m: "getitem df made = Inr m" and a: "getitem df att = Inr a"
    by (auto simp: in_columns_getitem)
  with assms obtain xs ys where "m = NumCol xs" "a = NumCol ys"
    by (cases m; cases a) (auto simp: not_text_getitem)
  with m a True show ?thesis
    by (simp add: add_pct_def bind_exn_def series_div_def)
next
  case False
  then show ?thesis by (auto simp: add_pct_def)
qed

lemma derived_columns_succeeds:
  assumes "list_all (numeric df) [''PTS'', ''REB'', ''AST'', ''STL'', ''BLK'']"
    and "list_all (not_text df) [''FGM'', ''FGA'', ''FG3M'', ''FG3A'']"
  shows "\<exists>out. derived_columns df = Inr out"
proof -
  from categories_ge10_numeric[OF assms(1)] obtain counts where c: "categories_ge10 df = Inr counts"
    by blast
  let ?df1 = "setitem df ''DOUBLE_DOUBLE'' (at_least 2 counts)"
  let ?df2 = "setitem ?df1 ''TRIPLE_DOUBLE'' (at_least 3 counts)"
  have 1: "add_double_double df = Inr ?df1"
    using c by (simp add: add_double_double_def bind_exn_def)
  have "categories_ge10 ?df1 = Inr counts"
    using c by (simp add: categories_ge10_setitem)
  then have 2: "add_triple_double ?df1 = Inr ?df2"
    by (simp add: add_triple_double_def bind_exn_def)
  have nt2: "not_text ?df2 ''FGM''" "not_text ?df2 ''FGA''" "not_text ?df2 ''FG3M''" "not_text ?df2 ''FG3A''"
    using assms(2) by (simp_all add: not_text_getitem getitem_setitem)
  from add_pct_succeeds[OF nt2(1,2)] obtain df3 where
    3: "add_pct ''FG_PCT'' ''FGM'' ''FGA'' ?df2 = Inr df3"
    by blast
  have "not_text df3 ''FG3M''" "not_text df3 ''FG3A''"
    using nt2(3,4) add_pct_getitem[OF 3, of "''FG3M''"] add_pct_getitem[OF 3, of "''FG3A''"]
    by (simp_all add: not_text_getitem)
  from add_pct_succeeds[OF this] obtain out where
    "add_pct ''FG3_PCT'' ''FG3M'' ''FG3A'' df3 = Inr out"
    by blast
  with 1 2 3 show ?thesis
    by (simp add: derived_columns_def bind_exn_def)
qed

lemma player_log_success:
  assumes "PlayerGameLog ev player_id (season self) (season_type self) = Inr (raw # others)"
    and "\<not> df_empty raw"
    and "list_all (numeric raw) [''PTS'', ''REB'', ''AST'', ''STL'', ''BLK'']"
    and "list_all (not_text raw) [''FGM'', ''FGA'', ''FG3M'', ''FG3A'']"
    and "save \<longrightarrow> (\<forall>df. to_csv ev (player_file_path ev self player_id) df = None)"
  shows "\<exists>out. derived_columns (setitem raw ''PLAYER_ID'' (broadcast raw player_id)) = Inr out \<and>
           fst (player_game_log_try ev self player_id save w) = Inr out \<and>
           fst (get_player_game_log ev self player_id save w) = out"
proof -
  let ?df = "setitem raw ''PLAYER_ID'' (broadcast raw player_id)"
  have "list_all (numeric ?df) [''PTS'', ''REB'', ''AST'', ''STL'', ''BLK'']"
    and "list_all (not_text ?df) [''FGM'', ''FGA'', ''FG3M'', ''FG3A'']"
    using assms(3,4) by (simp_all add: numeric_getitem not_text_getitem getitem_setitem)
  from derived_columns_succeeds[OF this] obtain out where d: "derived_columns ?df = Inr out"
    by blast
  have "fst (player_game_log_try ev self player_id save w) = Inr out"
    using assms(1,2,5) d
    by (auto simp: player_game_log_try_def player_file_path_def save_csv_def Let_def bind_exn_def
          index0_def split: prod.splits)
  moreover from this have "fst (get_player_game_log ev self player_id save w) = out"
    by (auto simp: get_player_game_log_def split: prod.splits sum.splits)
  ultimately show ?thesis using d by blast
qed

lemma num_div_fin:
  "num_div (Fin m) (Fin a) = quotient m a"
  by (auto simp: num_div_def quotient_def is_neg_def is_zero_def is_inf_def finite_value_def Let_def)

lemma logger_last:
  "lvl \<noteq> DEBUG \<Longrightarrow> last (logged (logger lvl template args w)) = (lvl, template, args)"
  by (simp add: logger_def)

lemma player_log_raises:
  assumes "player_game_log_try ev self player_id save w = (Inl e, self1, w1)"
  shows "fst (get_player_game_log ev self player_id save w) = DataFrame_new \<and>
         last (logged (snd (snd (get_player_game_log ev self player_id save w)))) =
           (ERROR, ''Error fetching game log for player ID {player_id}: {str(e)}'', [I player_id, E e])"
  using assms by (simp add: get_player_game_log_def logger_last)

lemma team_log_raises:
  assumes "team_game_log_try ev self team_id save w = (Inl e, self1, w1)"
  shows "fst (get_team_game_log ev self team_id save w) = DataFrame_new \<and>
         last (logged (snd (snd (get_team_game_log ev self team_id save w)))) =
           (ERROR, ''Error fetching game log for team ID {team_id}: {str(e)}'', [I team_id, E e])"
  using assms by (simp add: get_team_game_log_def logger_last)

lemma box_score_raises:
  assumes "box_score_try ev self game_id save w = (Inl e, self1, w1)"
  shows "fst (get_box_score ev self game_id save w) =
           \<lparr>player_stats = DataFrame_new, team_stats = DataFrame_new\<rparr> \<and>
         last (logged (snd (snd (get_box_score ev self game_id save w)))) =
           (ERROR, ''Error fetching box score for game ID {game_id}: {str(e)}'', [T game_id, E e])"
  using assms by (simp add: get_box_score_def logger_last)

lemma player_try_request_fails:
  "PlayerGameLog ev player_id (season self) (season_type self) = Inl e \<Longrightarrow>
   \<exists>self1 w1. player_game_log_try ev self player_id save w = (Inl e, self1, w1)"
  by (simp add: player_game_log_try_def Let_def bind_exn_def split: prod.splits)

lemma team_try_request_fails:
  "TeamGameLog ev team_id (season self) (season_type self) = Inl e \<Longrightarrow>
   \<exists>self1 w1. team_game_log_try ev self team_id save w = (Inl e, self1, w1)"
  by (simp add: team_game_log_try_def Let_def bind_exn_def split: prod.splits)

lemma box_try_request_fails:
  "box_score_frames ev game_id = Inl e \<Longrightarrow>
   \<exists>self1 w1. box_score_try ev self game_id save w = (Inl e, self1, w1)"
  by (simp add: box_score_try_def Let_def split: prod.splits)

lemma player_try_missing_column:
  assumes "PlayerGameLog ev player_id (season self) (season_type self) = Inr (raw # others)"
    and "\<not> df_empty raw" and "\<not> in_columns ''PTS'' raw"
  shows "\<exists>self1 w1. player_game_log_try ev self player_id save w = (Inl (KeyError ''PTS''), self1, w1)"
proof -
  have "getitem raw ''PTS'' = Inl (KeyError ''PTS'')"
    using assms(3) by (auto simp: in_columns_getitem getitem_def split: option.splits)
  then have "getitem (setitem raw ''PLAYER_ID'' (broadcast raw player_id)) ''PTS'' = Inl (KeyError ''PTS'')"
    by (simp add: getitem_setitem)
  then have "derived_columns (setitem raw ''PLAYER_ID'' (broadcast raw player_id)) = Inl (KeyError ''PTS'')"
    by (simp add: derived_columns_def add_double_double_def categories_ge10_def stat_ge10_def bind_exn_def)
  then show ?thesis
    using assms(1,2)
    by (simp add: player_game_log_try_def Let_def bind_exn_def index0_def split: prod.splits)
qed

lemma team_log_result:
  assumes "TeamGameLog ev team_id (season self) (season_type self) = Inr (raw # others)"
    and "\<not> df_empty raw"
  shows "fst (get_team_game_log ev self team_id save w) =
           (if save \<and> to_csv ev (team_file_path self team_id) (setitem raw ''TEAM_ID'' (broadcast raw team_id)) \<noteq> None
            then DataFrame_new else setitem raw ''TEAM_ID'' (broadcast raw team_id))"
  using assms
  by (auto simp: get_team_game_log_def team_game_log_try_def team_file_path_def save_csv_def
        Let_def bind_exn_def index0_def split: prod.splits option.splits)

lemma resolved_first:
  assumes "player_matches ev name = Inr (p # ps)"
  shows "fst (get_player_id_by_name ev name w) = Some (id' p) \<and>
         new_levels w (snd (get_player_id_by_name ev name w)) =
           (if ps = [] then [INFO] else [WARNING, WARNING, INFO])"
  using assms by (simp add: get_player_id_by_name_def new_levels_def logger_def Let_def)

lemma resolved_none:
  assumes "player_matches ev name = Inr []"
  shows "fst (get_player_id_by_name ev name w) = None \<and>
         new_levels w (snd (get_player_id_by_name ev name w)) = [ERROR]"
  using assms by (simp add: get_player_id_by_name_def new_levels_def logger_def)

lemma split_from_spaces:
  "list_all is_space s \<Longrightarrow> split_from [] s = []"
  by (induction s) auto

lemma floor_rat_numeral:
  "\<lfloor>numeral a / numeral b :: rat\<rfloor> = numeral a div numeral b"
  by (metis floor_divide_of_int_eq of_int_numeral)

lemmas float_eval = round64_def round64_pos_def floor_log2_def log2_up.simps pow2_def
  round_even_def Let_def floor_rat_numeral

lemmas division_eval = num_div_def is_neg_def is_zero_def is_inf_def finite_value_def











lemma init_delay:
  assumes "NBADataScraper_init ev season_arg season_type_arg w = (Inr self, w')"
  shows "request_delay self = 1 \<and> last_request_time self = clock w'"
  using assms
  by (auto simp: NBADataScraper_init_def Let_def split: prod.splits option.splits sum.splits)

lemmas frame_defs = bind_exn_def getitem_def in_columns_def nrows_def df_empty_def
  DataFrame_new_def wf_frame_def broadcast_def series_ge_def astype_int_def series_add_def
  int_column_def series_div_def stat_ge10_def categories_ge10_def at_least_def
  add_double_double_def add_triple_double_def add_pct_def derived_columns_def index0_def
  iloc_def cell_def reached_def categories_reached_def

lemmas process_defs = logger_def time_sleep_def rate_limit_request_def save_csv_def
  player_name_of_def player_game_log_try_def get_player_game_log_def
  player_log_env_def team_log_env_def quiet_env_def scraper0_def world0_def Let_def

lemma log_env_api [simp]:
  "PlayerGameLog (player_log_env df) p s t = Inr [df]"
  "TeamGameLog (team_log_env df) p s t = Inr [df]"
  "to_csv (team_log_env df) file_path f = None"
  "to_csv (player_log_env df) file_path f = None"
  by (simp_all add: player_log_env_def team_log_env_def quiet_env_def)

lemma two_games_out:
  "fst (get_player_game_log (player_log_env two_games) scraper0 23 False world0)
   = two_games @ [(''PLAYER_ID'', NumCol [Fin 23, Fin 23]), (''DOUBLE_DOUBLE'', NumCol [Fin 1, Fin 1]),
        (''TRIPLE_DOUBLE'', NumCol [Fin 0, Fin 1])]"
  by (simp add: frame_defs process_defs two_games_def numeral_2_eq_2)

lemma shooting_quotients:
  "num_div (Fin 5) (Fin 0) = PInf" "num_div (Fin 0) (Fin 0) = NaN"
  "num_div (Fin 7) (Fin 15) = Fin (4203359652212463 / 9007199254740992)"
  by (simp_all add: division_eval float_eval)

lemma shooting_log_out:
  "fst (get_player_game_log (player_log_env shooting_log) scraper0 23 False world0)
   = shooting_log @ [(''PLAYER_ID'', NumCol [Fin 23, Fin 23, Fin 23]),
        (''DOUBLE_DOUBLE'', NumCol [Fin 0, Fin 0, Fin 1]),
        (''TRIPLE_DOUBLE'', NumCol [Fin 0, Fin 0, Fin 0]),
        (''FG_PCT'', NumCol [PInf, NaN, Fin (4203359652212463 / 9007199254740992)])]"
  by (simp add: frame_defs process_defs shooting_log_def numeral_3_eq_3 shooting_quotients)

lemmas split_defs = py_split_def is_space_def

lemmas roster_defs = alaa_def zaid_def kareem_def seth_def stephen_def luka_def lebron_def





lemma init_scraper0:
  "fst (NBADataScraper_init quiet_env ''2024-25'' ''Regular Season'' world0) = Inr scraper0"
  by (simp add: NBADataScraper_init_def Let_def quiet_env_def world0_def scraper0_def path_join_def
        logger_def)

section \<open>The claims\<close>

text \<open>
  C1. For every row of the raw player game log, the derived DOUBLE_DOUBLE flag is 1 exactly
  when at least two of points, rebounds, assists, steals and blocks are at least 10, and 0
  otherwise; the derived TRIPLE_DOUBLE flag is 1 exactly when at least three of them are,
  and 0 otherwise. Stated of the frame \<open>get_player_game_log\<close> returns, saving or not, when
  the first frame of the response is \<open>raw\<close>, its five statistics are numeric columns, its
  makes and attempts are not columns of strings, and the file can be written when saving
  is asked for. At the witness, saving, the row with 10 points, 10 rebounds and 3 assists
  gets DOUBLE_DOUBLE 1 and TRIPLE_DOUBLE 0, the row with 10 points, 10 rebounds and 10
  assists gets 1 and 1.
\<close>

theorem double_triple_double_flags:
  assumes "PlayerGameLog ev player_id (season self) (season_type self) = Inr (raw # others)"
    and "wf_frame raw"
    and "list_all (numeric raw) [''PTS'', ''REB'', ''AST'', ''STL'', ''BLK'']"
    and "list_all (not_text raw) [''FGM'', ''FGA'', ''FG3M'', ''FG3A'']"
    and "save \<longrightarrow> (\<forall>df. to_csv ev (player_file_path ev self player_id) df = None)"
    and "i < nrows raw"
  shows "cell (fst (get_player_game_log ev self player_id save w)) ''DOUBLE_DOUBLE'' i =
           Some (N (Fin (if 2 \<le> categories_reached raw i then 1 else 0))) \<and>
         cell (fst (get_player_game_log ev self player_id save w)) ''TRIPLE_DOUBLE'' i =
           Some (N (Fin (if 3 \<le> categories_reached raw i then 1 else 0)))"
proof -
  have "\<not> df_empty raw"
    using assms(6) by (auto simp: df_empty_def nrows_def)
  from player_log_success[OF assms(1) this assms(3,4,5), of w] obtain out where
    d: "derived_columns (setitem raw ''PLAYER_ID'' (broadcast raw player_id)) = Inr out" and
    out: "fst (get_player_game_log ev self player_id save w) = out"
    by blast
  from derived_columns_flags[OF d] obtain counts where
    c: "categories_ge10 (setitem raw ''PLAYER_ID'' (broadcast raw player_id)) = Inr counts" and
    dd: "getitem out ''DOUBLE_DOUBLE'' = Inr (at_least 2 counts)" and
    td: "getitem out ''TRIPLE_DOUBLE'' = Inr (at_least 3 counts)"
    by blast
  from c have "categories_ge10 raw = Inr counts"
    by (simp add: categories_ge10_setitem)
  from categories_ge10_rows[OF assms(2) this] assms(6)
  have len: "i < length counts" and ci: "counts ! i = int (categories_reached raw i)"
    by auto
  show ?thesis
    unfolding out using cell_at_least[OF dd len] cell_at_least[OF td len] by (simp add: ci)
qed

theorem double_triple_double_flags_witness:
  "wf_frame two_games \<and> nrows two_games = 2 \<and>
   list_all (numeric two_games) [''PTS'', ''REB'', ''AST'', ''STL'', ''BLK''] \<and>
   list_all (not_text two_games) [''FGM'', ''FGA'', ''FG3M'', ''FG3A''] \<and>
   categories_reached two_games 0 = 2 \<and> categories_reached two_games 1 = 3 \<and>
   cell (fst (get_player_game_log (player_log_env two_games) scraper0 23 True world0))
     ''DOUBLE_DOUBLE'' 0 = Some (N (Fin 1)) \<and>
   cell (fst (get_player_game_log (player_log_env two_games) scraper0 23 True world0))
     ''TRIPLE_DOUBLE'' 0 = Some (N (Fin 0)) \<and>
   cell (fst (get_player_game_log (player_log_env two_games) scraper0 23 True world0))
     ''DOUBLE_DOUBLE'' 1 = Some (N (Fin 1)) \<and>
   cell (fst (get_player_game_log (player_log_env two_games) scraper0 23 True world0))
     ''TRIPLE_DOUBLE'' 1 = Some (N (Fin 1)) \<and>
   cell (fst (get_player_game_log (player_log_env two_games) scraper0 23 False world0))
     ''DOUBLE_DOUBLE'' 0 = Some (N (Fin 1)) \<and>
   cell (fst (get_player_game_log (player_log_env two_games) scraper0 23 False world0))
     ''TRIPLE_DOUBLE'' 0 = Some (N (Fin 0))"
proof -
  let ?ev = "player_log_env two_games"
  have api: "PlayerGameLog ?ev 23 (season scraper0) (season_type scraper0) = Inr (two_games # [])"
    by simp
  have wf: "wf_frame two_games"
    by (simp add: wf_frame_def two_games_def nrows_def)
  have num: "list_all (numeric two_games) [''PTS'', ''REB'', ''AST'', ''STL'', ''BLK'']"
    and nt: "list_all (not_text two_games) [''FGM'', ''FGA'', ''FG3M'', ''FG3A'']"
    by (simp_all add: numeric_def not_text_def getitem_def two_games_def)
  have csv: "save \<longrightarrow> (\<forall>df. to_csv ?ev (player_file_path ?ev scraper0 23) df = None)" for save
    by simp
  have n: "nrows two_games = 2"
    by (simp add: nrows_def two_games_def)
  have r0: "categories_reached two_games 0 = 2" and r1: "categories_reached two_games (Suc 0) = 3"
    by (simp_all add: frame_defs two_games_def)
  have i0: "0 < nrows two_games" and i1: "1 < nrows two_games"
    by (simp_all add: n)
  show ?thesis
    using double_triple_double_flags[OF api wf num nt csv i0, of True world0]
          double_triple_double_flags[OF api wf num nt csv i1, of True world0]
          double_triple_double_flags[OF api wf num nt csv i0, of False world0] wf n num nt
    by (simp add: r0 r1)
qed

text \<open>
  C2, as the code has it. The specification has the percentage left undefined (not 0, not
  NaN, not an infinity) when attempts is zero and no percentage column exists, and the
  quotient computed only when attempts is nonzero. The code divides whenever the percentage
  column is absent and the makes and attempts columns are present: in the frame below,
  5 makes on 0 attempts give FG_PCT plus infinity, and 0 makes on 0 attempts give NaN.
\<close>

theorem zero_attempts_counterexample:
  "\<not> in_columns ''FG_PCT'' shooting_log \<and>
   cell shooting_log ''FGM'' 0 = Some (N (Fin 5)) \<and>
   cell shooting_log ''FGA'' 0 = Some (N (Fin 0)) \<and>
   cell (fst (get_player_game_log (player_log_env shooting_log) scraper0 23 False world0))
     ''FG_PCT'' 0 = Some (N PInf) \<and>
   cell shooting_log ''FGM'' 1 = Some (N (Fin 0)) \<and>
   cell shooting_log ''FGA'' 1 = Some (N (Fin 0)) \<and>
   cell (fst (get_player_game_log (player_log_env shooting_log) scraper0 23 False world0))
     ''FG_PCT'' 1 = Some (N NaN)"
  unfolding shooting_log_out
  by (simp add: shooting_log_def in_columns_def cell_def getitem_def bind_exn_def iloc_def)

text \<open>
  C2, amended. When the first frame of the response has rows, its five statistics are
  numeric columns, its makes and attempts are not columns of strings, and the file can be
  written when saving is asked for, the body of \<open>get_player_game_log\<close> raises nothing,
  zero attempts or not, and in the frame it returns, for FG_PCT from FGM and FGA and for
  FG3_PCT from FG3M and FG3A: a percentage column present in the raw frame is returned as
  supplied; when it is absent, every row with numeric makes and attempts gets their
  float64 quotient. For finite makes \<open>m\<close> and attempts \<open>a\<close> that is: NaN when both are zero,
  the infinity of the sign of \<open>m\<close> when only \<open>a\<close> is zero, and the nearest float64 to
  \<open>m / a\<close> otherwise (a zero with the sign of \<open>a\<close> when \<open>m\<close> is zero). At the witness, saving,
  7 makes on 15 attempts give 0.4666666666666667.
\<close>

theorem shooting_percentage:
  assumes "PlayerGameLog ev player_id (season self) (season_type self) = Inr (raw # others)"
    and "\<not> df_empty raw"
    and "list_all (numeric raw) [''PTS'', ''REB'', ''AST'', ''STL'', ''BLK'']"
    and "list_all (not_text raw) [''FGM'', ''FGA'', ''FG3M'', ''FG3A'']"
    and "save \<longrightarrow> (\<forall>df. to_csv ev (player_file_path ev self player_id) df = None)"
    and "(pct, made, att) = (''FG_PCT'', ''FGM'', ''FGA'') \<or> (pct, made, att) = (''FG3_PCT'', ''FG3M'', ''FG3A'')"
  shows "fst (player_game_log_try ev self player_id save w) =
           Inr (fst (get_player_game_log ev self player_id save w)) \<and>
         fst (get_player_game_log ev self player_id save w) \<noteq> DataFrame_new \<and>
         (in_columns pct raw \<longrightarrow>
            getitem (fst (get_player_game_log ev self player_id save w)) pct = getitem raw pct) \<and>
         (\<not> in_columns pct raw \<longrightarrow>
            (\<forall>i x y. cell raw made i = Some (N x) \<and> cell raw att i = Some (N y) \<longrightarrow>
               cell (fst (get_player_game_log ev self player_id save w)) pct i =
                 Some (N (num_div x y))) \<and>
            (\<forall>i m a. cell raw made i = Some (N (Fin m)) \<and> cell raw att i = Some (N (Fin a)) \<longrightarrow>
               cell (fst (get_player_game_log ev self player_id save w)) pct i =
                 Some (N (quotient m a))))"
proof -
  let ?df = "setitem raw ''PLAYER_ID'' (broadcast raw player_id)"
  from player_log_success[OF assms(1,2,3,4,5), of w] obtain out where
    d: "derived_columns ?df = Inr out" and
    body: "fst (player_game_log_try ev self player_id save w) = Inr out" and
    out: "fst (get_player_game_log ev self player_id save w) = out"
    by blast
  from derived_columns_pct[OF d] obtain df2 df3 where
    same0: "\<forall>k. k \<noteq> ''DOUBLE_DOUBLE'' \<and> k \<noteq> ''TRIPLE_DOUBLE'' \<longrightarrow> getitem df2 k = getitem ?df k" and
    fg: "add_pct ''FG_PCT'' ''FGM'' ''FGA'' df2 = Inr df3" and
    fg3: "add_pct ''FG3_PCT'' ''FG3M'' ''FG3A'' df3 = Inr out"
    by (elim exE conjE)
  have same: "getitem df2 k = getitem ?df k" if "k \<noteq> ''DOUBLE_DOUBLE''" "k \<noteq> ''TRIPLE_DOUBLE''" for k
    using same0 that by simp
  have raw2: "getitem df2 k = getitem raw k"
    if "k \<in> {''FG_PCT'', ''FGM'', ''FGA'', ''FG3_PCT'', ''FG3M'', ''FG3A''}" for k
    using that same[of k] by (auto simp: getitem_setitem)
  have raw3: "getitem df3 k = getitem raw k" if "k \<in> {''FG3_PCT'', ''FG3M'', ''FG3A''}" for k
    using that add_pct_getitem[OF fg, of k] raw2[of k] by auto
  have cell_cong: "cell d k i = cell d' k i" if "getitem d k = getitem d' k" for d d' k i
    using that by (simp add: cell_def)
  have "getitem out ''DOUBLE_DOUBLE'' \<noteq> Inl (KeyError ''DOUBLE_DOUBLE'')"
    using derived_columns_flags[OF d] by auto
  then have nonempty: "out \<noteq> DataFrame_new"
    by (auto simp: DataFrame_new_def getitem_def)
  have pcts: "(in_columns pct raw \<longrightarrow> getitem out pct = getitem raw pct) \<and>
      (\<not> in_columns pct raw \<longrightarrow>
         (\<forall>i x y. cell raw made i = Some (N x) \<and> cell raw att i = Some (N y) \<longrightarrow>
            cell out pct i = Some (N (num_div x y))))"
    using assms(6)
  proof
    assume "(pct, made, att) = (''FG_PCT'', ''FGM'', ''FGA'')"
    then have p: "pct = ''FG_PCT''" "made = ''FGM''" "att = ''FGA''" by simp_all
    have o: "getitem out ''FG_PCT'' = getitem df3 ''FG_PCT''"
      using add_pct_getitem[OF fg3, of "''FG_PCT''"] by simp
    have ic: "in_columns k df2 = in_columns k raw" if "k \<in> {''FG_PCT'', ''FGM'', ''FGA''}" for k
      using that raw2[of k] by (intro in_columns_cong) auto
    have cc: "cell df2 k i = cell raw k i" if "k \<in> {''FGM'', ''FGA''}" for k i
      using that raw2[of k] by (intro cell_cong) auto
    show ?thesis
    proof (intro conjI impI allI)
      assume "in_columns pct raw"
      then show "getitem out pct = getitem raw pct"
        using add_pct_result[OF fg] ic raw2[of "''FG_PCT''"] o by (simp add: p)
    next
      fix i x y
      assume np: "\<not> in_columns pct raw"
        and c: "cell raw made i = Some (N x) \<and> cell raw att i = Some (N y)"
      then have "in_columns ''FGM'' raw" "in_columns ''FGA'' raw"
        by (auto simp: p in_columns_getitem cell_def bind_exn_def split: sum.splits)
      with np add_pct_result[OF fg] ic obtain mc ac q where
        "getitem df2 ''FGM'' = Inr mc" "getitem df2 ''FGA'' = Inr ac" "series_div mc ac = Inr q"
        "getitem df3 ''FG_PCT'' = Inr q"
        by (auto simp: p)
      from cell_series_div[OF this(1,2,3), of out "''FG_PCT''" i x y] this(4) o c cc
      show "cell out pct i = Some (N (num_div x y))"
        by (simp add: p)
    qed
  next
    assume "(pct, made, att) = (''FG3_PCT'', ''FG3M'', ''FG3A'')"
    then have p: "pct = ''FG3_PCT''" "made = ''FG3M''" "att = ''FG3A''" by simp_all
    have ic: "in_columns k df3 = in_columns k raw" if "k \<in> {''FG3_PCT'', ''FG3M'', ''FG3A''}" for k
      using that raw3[of k] by (intro in_columns_cong) auto
    have cc: "cell df3 k i = cell raw k i" if "k \<in> {''FG3M'', ''FG3A''}" for k i
      using that raw3[of k] by (intro cell_cong) auto
    show ?thesis
    proof (intro conjI impI allI)
      assume "in_columns pct raw"
      then show "getitem out pct = getitem raw pct"
        using add_pct_result[OF fg3] ic raw3[of "''FG3_PCT''"] by (simp add: p)
    next
      fix i x y
      assume np: "\<not> in_columns pct raw"
        and c: "cell raw made i = Some (N x) \<and> cell raw att i = Some (N y)"
      then have "in_columns ''FG3M'' raw" "in_columns ''FG3A'' raw"
        by (auto simp: p in_columns_getitem cell_def bind_exn_def split: sum.splits)
      with np add_pct_result[OF fg3] ic obtain mc ac q where
        "getitem df3 ''FG3M'' = Inr mc" "getitem df3 ''FG3A'' = Inr ac" "series_div mc ac = Inr q"
        "getitem out ''FG3_PCT'' = Inr q"
        by (auto simp: p)
      from cell_series_div[OF this(1,2,3), of out "''FG3_PCT''" i x y] this(4) c cc
      show "cell out pct i = Some (N (num_div x y))"
        by (simp add: p)
    qed
  qed
  then have "\<not> in_columns pct raw \<longrightarrow>
      (\<forall>i m a. cell raw made i = Some (N (Fin m)) \<and> cell raw att i = Some (N (Fin a)) \<longrightarrow>
         cell out pct i = Some (N (quotient m a)))"
    by (simp add: num_div_fin[symmetric])
  with pcts body nonempty show ?thesis
    unfolding out by simp
qed

theorem shooting_percentage_witness:
  "\<not> df_empty shooting_log \<and>
   list_all (numeric shooting_log) [''PTS'', ''REB'', ''AST'', ''STL'', ''BLK''] \<and>
   list_all (not_text shooting_log) [''FGM'', ''FGA'', ''FG3M'', ''FG3A''] \<and>
   fst (player_game_log_try (player_log_env shooting_log) scraper0 23 True world0) =
     Inr (fst (get_player_game_log (player_log_env shooting_log) scraper0 23 True world0)) \<and>
   \<not> in_columns ''FG_PCT'' shooting_log \<and>
   cell shooting_log ''FGM'' 2 = Some (N (Fin 7)) \<and>
   cell shooting_log ''FGA'' 2 = Some (N (Fin 15)) \<and>
   cell (fst (get_player_game_log (player_log_env shooting_log) scraper0 23 True world0))
     ''FG_PCT'' 2 = Some (N (Fin (4203359652212463 / 9007199254740992))) \<and>
   cell (fst (get_player_game_log (player_log_env shooting_log) scraper0 23 True world0))
     ''FG_PCT'' 0 = Some (N PInf) \<and>
   in_columns ''FG3_PCT'' shooting_log \<and>
   getitem (fst (get_player_game_log (player_log_env shooting_log) scraper0 23 True world0))
     ''FG3_PCT'' = getitem shooting_log ''FG3_PCT''"
proof -
  let ?ev = "player_log_env shooting_log"
  let ?out = "fst (get_player_game_log ?ev scraper0 23 True world0)"
  have api: "PlayerGameLog ?ev 23 (season scraper0) (season_type scraper0) = Inr (shooting_log # [])"
    by simp
  have ne: "\<not> df_empty shooting_log"
    by (simp add: df_empty_def nrows_def shooting_log_def)
  have num: "list_all (numeric shooting_log) [''PTS'', ''REB'', ''AST'', ''STL'', ''BLK'']"
    and nt: "list_all (not_text shooting_log) [''FGM'', ''FGA'', ''FG3M'', ''FG3A'']"
    by (simp_all add: numeric_def not_text_def getitem_def shooting_log_def)
  have csv: "True \<longrightarrow> (\<forall>df. to_csv ?ev (player_file_path ?ev scraper0 23) df = None)"
    by simp
  have absent: "\<not> in_columns ''FG_PCT'' shooting_log" and present: "in_columns ''FG3_PCT'' shooting_log"
    by (simp_all add: shooting_log_def in_columns_def)
  have cells: "cell shooting_log ''FGM'' 2 = Some (N (Fin 7)) \<and> cell shooting_log ''FGA'' 2 = Some (N (Fin 15))"
    "cell shooting_log ''FGM'' 0 = Some (N (Fin 5)) \<and> cell shooting_log ''FGA'' 0 = Some (N (Fin 0))"
    by (simp_all add: shooting_log_def cell_def getitem_def bind_exn_def iloc_def)
  have q: "quotient 7 15 = Fin (4203359652212463 / 9007199254740992)" "quotient 5 0 = PInf"
    by (simp_all add: quotient_def float_eval)
  note fg = shooting_percentage[OF api ne num nt csv, of "''FG_PCT''" "''FGM''" "''FGA''" world0]
  from fg absent cells(1) have "cell ?out ''FG_PCT'' 2 = Some (N (quotient 7 15))"
    by blast
  moreover from fg absent cells(2) have "cell ?out ''FG_PCT'' 0 = Some (N (quotient 5 0))"
    by blast
  moreover from fg have "fst (player_game_log_try ?ev scraper0 23 True world0) = Inr ?out"
    by blast
  moreover
  from shooting_percentage[OF api ne num nt csv, of "''FG3_PCT''" "''FG3M''" "''FG3A''" world0] present
  have "getitem ?out ''FG3_PCT'' = getitem shooting_log ''FG3_PCT''"
    by blast
  ultimately show ?thesis
    using absent present cells ne num nt by (simp add: q)
qed

text \<open>
  C3. Each fetch (player game log, team game log, box score) catches what the request to
  the statistics source raises: when the endpoint call, or for a box score one of its
  \<open>get_data_frame()\<close> calls, raises \<open>e\<close>, the fetch returns the empty frame (the empty
  BoxScore) and its last log record is the ERROR record carrying \<open>e\<close>. The same holds of a
  response that lacks an expected column: without PTS the derived columns raise KeyError,
  and the player fetch returns the empty frame with that error logged. In general, whatever
  is raised inside the \<open>try\<close> of a fetch (a failing save included, as at the witness) ends
  in its \<open>except\<close> branch: the empty result, the state as the exception left it, and the
  ERROR record appended. The fetches return a value on every input, so nothing propagates
  to the caller. (The lookup of the player's display name has a handler of its own, lines
  179 to 183, and only changes the file name.)
\<close>

theorem fetch_failures_caught:
  "(PlayerGameLog ev player_id (season self) (season_type self) = Inl e \<longrightarrow>
      fst (get_player_game_log ev self player_id save w) = DataFrame_new \<and>
      last (logged (snd (snd (get_player_game_log ev self player_id save w)))) =
        (ERROR, ''Error fetching game log for player ID {player_id}: {str(e)}'', [I player_id, E e])) \<and>
   (TeamGameLog ev team_id (season self) (season_type self) = Inl e \<longrightarrow>
      fst (get_team_game_log ev self team_id save w) = DataFrame_new \<and>
      last (logged (snd (snd (get_team_game_log ev self team_id save w)))) =
        (ERROR, ''Error fetching game log for team ID {team_id}: {str(e)}'', [I team_id, E e])) \<and>
   (box_score_frames ev game_id = Inl e \<longrightarrow>
      fst (get_box_score ev self game_id save w) =
        \<lparr>player_stats = DataFrame_new, team_stats = DataFrame_new\<rparr> \<and>
      last (logged (snd (snd (get_box_score ev self game_id save w)))) =
        (ERROR, ''Error fetching box score for game ID {game_id}: {str(e)}'', [T game_id, E e])) \<and>
   (PlayerGameLog ev player_id (season self) (season_type self) = Inr (raw # others) \<and>
      \<not> df_empty raw \<and> \<not> in_columns ''PTS'' raw \<longrightarrow>
      fst (get_player_game_log ev self player_id save w) = DataFrame_new \<and>
      last (logged (snd (snd (get_player_game_log ev self player_id save w)))) =
        (ERROR, ''Error fetching game log for player ID {player_id}: {str(e)}'',
         [I player_id, E (KeyError ''PTS'')])) \<and>
   (player_game_log_try ev self player_id save w = (Inl e, self1, w1) \<longrightarrow>
      get_player_game_log ev self player_id save w =
        (DataFrame_new, self1,
         w1\<lparr>logged := logged w1 @
           [(ERROR, ''Error fetching game log for player ID {player_id}: {str(e)}'', [I player_id, E e])]\<rparr>)) \<and>
   (team_game_log_try ev self team_id save w = (Inl e, self2, w2) \<longrightarrow>
      get_team_game_log ev self team_id save w =
        (DataFrame_new, self2,
         w2\<lparr>logged := logged w2 @
           [(ERROR, ''Error fetching game log for team ID {team_id}: {str(e)}'', [I team_id, E e])]\<rparr>)) \<and>
   (box_score_try ev self game_id save w = (Inl e, self3, w3) \<longrightarrow>
      get_box_score ev self game_id save w =
        (\<lparr>player_stats = DataFrame_new, team_stats = DataFrame_new\<rparr>, self3,
         w3\<lparr>logged := logged w3 @
           [(ERROR, ''Error fetching box score for game ID {game_id}: {str(e)}'', [T game_id, E e])]\<rparr>))"
proof (intro conjI impI)
  assume "PlayerGameLog ev player_id (season self) (season_type self) = Inl e"
  from player_try_request_fails[OF this] obtain self1 w1 where
    "player_game_log_try ev self player_id save w = (Inl e, self1, w1)" by blast
  from player_log_raises[OF this]
  show "fst (get_player_game_log ev self player_id save w) = DataFrame_new"
    and "last (logged (snd (snd (get_player_game_log ev self player_id save w)))) =
        (ERROR, ''Error fetching game log for player ID {player_id}: {str(e)}'', [I player_id, E e])"
    by simp_all
next
  assume "TeamGameLog ev team_id (season self) (season_type self) = Inl e"
  from team_try_request_fails[OF this] obtain self1 w1 where
    "team_game_log_try ev self team_id save w = (Inl e, self1, w1)" by blast
  from team_log_raises[OF this]
  show "fst (get_team_game_log ev self team_id save w) = DataFrame_new"
    and "last (logged (snd (snd (get_team_game_log ev self team_id save w)))) =
        (ERROR, ''Error fetching game log for team ID {team_id}: {str(e)}'', [I team_id, E e])"
    by simp_all
next
  assume "box_score_frames ev game_id = Inl e"
  from box_try_request_fails[OF this] obtain self1 w1 where
    "box_score_try ev self game_id save w = (Inl e, self1, w1)" by blast
  from box_score_raises[OF this]
  show "fst (get_box_score ev self game_id save w) =
        \<lparr>player_stats = DataFrame_new, team_stats = DataFrame_new\<rparr>"
    and "last (logged (snd (snd (get_box_score ev self game_id save w)))) =
        (ERROR, ''Error fetching box score for game ID {game_id}: {str(e)}'', [T game_id, E e])"
    by simp_all
next
  assume a: "PlayerGameLog ev player_id (season self) (season_type self) = Inr (raw # others) \<and>
      \<not> df_empty raw \<and> \<not> in_columns ''PTS'' raw"
  then obtain self1 w1 where
    "player_game_log_try ev self player_id save w = (Inl (KeyError ''PTS''), self1, w1)"
    using player_try_missing_column[of ev player_id self raw others save w] by blast
  from player_log_raises[OF this]
  show "fst (get_player_game_log ev self player_id save w) = DataFrame_new"
    and "last (logged (snd (snd (get_player_game_log ev self player_id save w)))) =
        (ERROR, ''Error fetching game log for player ID {player_id}: {str(e)}'',
         [I player_id, E (KeyError ''PTS'')])"
    by simp_all
next
  assume "player_game_log_try ev self player_id save w = (Inl e, self1, w1)"
  then show "get_player_game_log ev self player_id save w =
        (DataFrame_new, self1,
         w1\<lparr>logged := logged w1 @
           [(ERROR, ''Error fetching game log for player ID {player_id}: {str(e)}'', [I player_id, E e])]\<rparr>)"
    by (simp add: get_player_game_log_def logger_def)
next
  assume "team_game_log_try ev self team_id save w = (Inl e, self2, w2)"
  then show "get_team_game_log ev self team_id save w =
        (DataFrame_new, self2,
         w2\<lparr>logged := logged w2 @
           [(ERROR, ''Error fetching game log for team ID {team_id}: {str(e)}'', [I team_id, E e])]\<rparr>)"
    by (simp add: get_team_game_log_def logger_def)
next
  assume "box_score_try ev self game_id save w = (Inl e, self3, w3)"
  then show "get_box_score ev self game_id save w =
        (\<lparr>player_stats = DataFrame_new, team_stats = DataFrame_new\<rparr>, self3,
         w3\<lparr>logged := logged w3 @
           [(ERROR, ''Error fetching box score for game ID {game_id}: {str(e)}'', [T game_id, E e])]\<rparr>)"
    by (simp add: get_box_score_def logger_def)
qed

theorem fetch_failures_caught_witness:
  "PlayerGameLog failing_env 23 (season scraper0) (season_type scraper0) = Inl (External ''Read timed out'') \<and>
   fst (get_player_game_log failing_env scraper0 23 True world0) = DataFrame_new \<and>
   last (logged (snd (snd (get_player_game_log failing_env scraper0 23 True world0)))) =
     (ERROR, ''Error fetching game log for player ID {player_id}: {str(e)}'',
      [I 23, E (External ''Read timed out'')]) \<and>
   TeamGameLog failing_env 7 (season scraper0) (season_type scraper0) = Inl (External ''Read timed out'') \<and>
   fst (get_team_game_log failing_env scraper0 7 True world0) = DataFrame_new \<and>
   last (logged (snd (snd (get_team_game_log failing_env scraper0 7 True world0)))) =
     (ERROR, ''Error fetching game log for team ID {team_id}: {str(e)}'',
      [I 7, E (External ''Read timed out'')]) \<and>
   box_score_frames failing_env ''0022400001'' = Inl (External ''Expecting value'') \<and>
   fst (get_box_score failing_env scraper0 ''0022400001'' True world0) =
     \<lparr>player_stats = DataFrame_new, team_stats = DataFrame_new\<rparr> \<and>
   last (logged (snd (snd (get_box_score failing_env scraper0 ''0022400001'' True world0)))) =
     (ERROR, ''Error fetching box score for game ID {game_id}: {str(e)}'',
      [T ''0022400001'', E (External ''Expecting value'')]) \<and>
   PlayerGameLog (player_log_env no_points) 23 (season scraper0)
     (season_type scraper0) = Inr (no_points # []) \<and>
   \<not> df_empty no_points \<and> \<not> in_columns ''PTS'' no_points \<and>
   fst (get_player_game_log (player_log_env no_points) scraper0 23 True world0)
     = DataFrame_new \<and>
   last (logged (snd (snd (get_player_game_log (player_log_env no_points)
       scraper0 23 True world0)))) =
     (ERROR, ''Error fetching game log for player ID {player_id}: {str(e)}'',
      [I 23, E (KeyError ''PTS'')]) \<and>
   fst (team_game_log_try full_disk_env scraper0 1610612747 True world0) =
     Inl (External ''No space left on device'') \<and>
   fst (get_team_game_log full_disk_env scraper0 1610612747 True world0) = DataFrame_new \<and>
   last (logged (snd (snd (get_team_game_log full_disk_env scraper0 1610612747 True world0)))) =
     (ERROR, ''Error fetching game log for team ID {team_id}: {str(e)}'',
      [I 1610612747, E (External ''No space left on device'')])"
proof -
  let ?pt = "player_game_log_try failing_env scraper0 23 True world0"
  let ?tt = "team_game_log_try full_disk_env scraper0 1610612747 True world0"
  let ?bt = "box_score_try failing_env scraper0 ''0022400001'' True world0"
  have "fst ?pt = Inl (External ''Read timed out'')"
    by (simp add: player_game_log_try_def Let_def bind_exn_def failing_env_def split: prod.splits)
  then have gp: "?pt = (Inl (External ''Read timed out''), fst (snd ?pt), snd (snd ?pt))"
    by (metis prod.collapse)
  have ft: "fst ?tt = Inl (External ''No space left on device'')"
    by (simp add: team_game_log_try_def save_csv_def Let_def bind_exn_def index0_def df_empty_def
          nrows_def team_log_def full_disk_env_def team_log_env_def split: prod.splits)
  then have gt: "?tt = (Inl (External ''No space left on device''), fst (snd ?tt), snd (snd ?tt))"
    by (metis prod.collapse)
  have "fst ?bt = Inl (External ''Expecting value'')"
    by (simp add: box_score_try_def box_score_frames_def Let_def bind_exn_def failing_env_def
          split: prod.splits)
  then have gb: "?bt = (Inl (External ''Expecting value''), fst (snd ?bt), snd (snd ?bt))"
    by (metis prod.collapse)
  from fetch_failures_caught[of full_disk_env 1610612747 scraper0 "External ''No space left on device''"
      True world0 1610612747 "''0022400001''" "[]" "[]" "fst (snd ?pt)" "snd (snd ?pt)"
      "fst (snd ?tt)" "snd (snd ?tt)"] gt
  have 4: "fst (get_team_game_log full_disk_env scraper0 1610612747 True world0) = DataFrame_new \<and>
      last (logged (snd (snd (get_team_game_log full_disk_env scraper0 1610612747 True world0)))) =
        (ERROR, ''Error fetching game log for team ID {team_id}: {str(e)}'',
         [I 1610612747, E (External ''No space left on device'')])"
    by simp
  from fetch_failures_caught[of failing_env 23 scraper0 "External ''Read timed out''" True world0
      7 "''0022400001''" "[]" "[]" "fst (snd ?pt)" "snd (snd ?pt)"] gp
  have 5: "fst (get_player_game_log failing_env scraper0 23 True world0) = DataFrame_new"
    by simp
  from fetch_failures_caught[of failing_env 23 scraper0 "External ''Expecting value''" True world0
      7 "''0022400001''" "[]" "[]" _ _ _ _ "fst (snd ?bt)" "snd (snd ?bt)"] gb
  have 6: "fst (get_box_score failing_env scraper0 ''0022400001'' True world0) =
      \<lparr>player_stats = DataFrame_new, team_stats = DataFrame_new\<rparr>"
    by simp
  let ?ev = "player_log_env no_points"
  have p: "PlayerGameLog failing_env 23 (season scraper0) (season_type scraper0) = Inl (External ''Read timed out'')"
    and t: "TeamGameLog failing_env 7 (season scraper0) (season_type scraper0) = Inl (External ''Read timed out'')"
    and b: "box_score_frames failing_env ''0022400001'' = Inl (External ''Expecting value'')"
    by (simp_all add: failing_env_def box_score_frames_def bind_exn_def)
  have m: "PlayerGameLog ?ev 23 (season scraper0) (season_type scraper0) = Inr (no_points # [])"
    and ne: "\<not> df_empty no_points" and np: "\<not> in_columns ''PTS'' no_points"
    by (simp_all add: no_points_def df_empty_def nrows_def in_columns_def)
  from fetch_failures_caught[of failing_env 23 scraper0 "External ''Read timed out''" True world0
      7 "''0022400001''" "[]" "[]"] p t
  have 1: "fst (get_player_game_log failing_env scraper0 23 True world0) = DataFrame_new \<and>
        last (logged (snd (snd (get_player_game_log failing_env scraper0 23 True world0)))) =
          (ERROR, ''Error fetching game log for player ID {player_id}: {str(e)}'',
           [I 23, E (External ''Read timed out'')]) \<and>
        fst (get_team_game_log failing_env scraper0 7 True world0) = DataFrame_new \<and>
        last (logged (snd (snd (get_team_game_log failing_env scraper0 7 True world0)))) =
          (ERROR, ''Error fetching game log for team ID {team_id}: {str(e)}'',
           [I 7, E (External ''Read timed out'')])"
    by blast
  from fetch_failures_caught[of failing_env 23 scraper0 "External ''Expecting value''" True world0
      7 "''0022400001''" "[]" "[]"] b
  have 2: "fst (get_box_score failing_env scraper0 ''0022400001'' True world0) =
          \<lparr>player_stats = DataFrame_new, team_stats = DataFrame_new\<rparr> \<and>
        last (logged (snd (snd (get_box_score failing_env scraper0 ''0022400001'' True world0)))) =
          (ERROR, ''Error fetching box score for game ID {game_id}: {str(e)}'',
           [T ''0022400001'', E (External ''Expecting value'')])"
    by blast
  from fetch_failures_caught[of ?ev 23 scraper0 "External []" True world0
      7 "''0022400001''" no_points "[]"] m ne np
  have 3: "fst (get_player_game_log ?ev scraper0 23 True world0) = DataFrame_new \<and>
        last (logged (snd (snd (get_player_game_log ?ev scraper0 23 True world0)))) =
          (ERROR, ''Error fetching game log for player ID {player_id}: {str(e)}'',
           [I 23, E (KeyError ''PTS'')])"
    by blast
  from 1 2 3 4 p t b m ne np ft show ?thesis by blast
qed

text \<open>
  C4. A call of \<open>_rate_limit_request\<close> asks \<open>time.sleep\<close> for exactly the remaining time
  \<open>request_delay - elapsed\<close> when the time elapsed since the last recorded request is below
  \<open>request_delay\<close> (1 second in every scraper \<open>__init__\<close> returns) and does not sleep
  otherwise, and in both cases leaves \<open>last_request_time\<close> at the clock reading on
  return. Hence a second call, started any time \<open>gap \<ge> 0\<close> after the first returned (zero
  included), returns at a timestamp at least \<open>request_delay\<close> after the first one's. The
  clock is the one of the model: it does not run backwards, and a sleep lasts at least as
  long as asked.
\<close>

theorem rate_limit_spacing:
  assumes "rate_limit_request ev self w = (self1, w1)"
  shows "slept w1 = slept w @ (if clock w - last_request_time self < request_delay self
                               then [request_delay self - (clock w - last_request_time self)]
                               else []) \<and>
         last_request_time self1 = clock w1 \<and>
         (0 \<le> gap \<and> 0 \<le> sleep_overrun ev2 \<and> 0 \<le> lag ev2 \<and>
          rate_limit_request ev2 self1 (w1\<lparr>clock := clock w1 + gap\<rparr>) = (self2, w2) \<longrightarrow>
            last_request_time self2 = clock w2 \<and>
            last_request_time self1 + request_delay self \<le> last_request_time self2) \<and>
         (NBADataScraper_init ev0 season_arg season_type_arg w0 = (Inr self, w0') \<longrightarrow>
            request_delay self = 1)"
proof (intro conjI impI)
  show "slept w1 = slept w @ (if clock w - last_request_time self < request_delay self
                               then [request_delay self - (clock w - last_request_time self)]
                               else [])"
    using assms by (auto simp: rate_limit_request_def time_sleep_def logger_def Let_def)
  show l1: "last_request_time self1 = clock w1"
    using assms by (auto simp: rate_limit_request_def Let_def)
  have d1: "request_delay self1 = request_delay self"
    using assms by (auto simp: rate_limit_request_def Let_def)
  assume a: "0 \<le> gap \<and> 0 \<le> sleep_overrun ev2 \<and> 0 \<le> lag ev2 \<and>
          rate_limit_request ev2 self1 (w1\<lparr>clock := clock w1 + gap\<rparr>) = (self2, w2)"
  then show "last_request_time self2 = clock w2"
    by (auto simp: rate_limit_request_def Let_def)
  from a have "last_request_time self2 =
      (if gap < request_delay self then clock w1 + gap + (request_delay self - gap) + sleep_overrun ev2
       else clock w1 + gap) + lag ev2"
    by (auto simp: rate_limit_request_def time_sleep_def logger_def Let_def l1 d1)
  with a show "last_request_time self1 + request_delay self \<le> last_request_time self2"
    by (auto simp: l1 split: if_splits)
next
  assume "NBADataScraper_init ev0 season_arg season_type_arg w0 = (Inr self, w0')"
  then show "request_delay self = 1"
    by (simp add: init_delay)
qed

theorem rate_limit_spacing_witness:
  "fst (NBADataScraper_init quiet_env ''2024-25'' ''Regular Season'' world0) = Inr scraper0 \<and>
   request_delay scraper0 = 1 \<and>
   (0::rat) \<le> 0 \<and> 0 \<le> sleep_overrun quiet_env \<and> 0 \<le> lag quiet_env \<and>
   slept (snd (rate_limit_request quiet_env scraper0 world0)) = slept world0 @ [1] \<and>
   last_request_time (fst (rate_limit_request quiet_env scraper0 world0)) = 1 \<and>
   last_request_time
     (fst (rate_limit_request quiet_env (fst (rate_limit_request quiet_env scraper0 world0))
        (snd (rate_limit_request quiet_env scraper0 world0)
           \<lparr>clock := clock (snd (rate_limit_request quiet_env scraper0 world0)) + 0\<rparr>))) = 2 \<and>
   last_request_time (fst (rate_limit_request quiet_env scraper0 world0)) + request_delay scraper0
     \<le> last_request_time
         (fst (rate_limit_request quiet_env (fst (rate_limit_request quiet_env scraper0 world0))
            (snd (rate_limit_request quiet_env scraper0 world0)
               \<lparr>clock := clock (snd (rate_limit_request quiet_env scraper0 world0)) + 0\<rparr>)))"
proof -
  let ?r1 = "rate_limit_request quiet_env scraper0 world0"
  let ?r2 = "rate_limit_request quiet_env (fst ?r1) (snd ?r1\<lparr>clock := clock (snd ?r1) + 0\<rparr>)"
  have c1: "?r1 = (fst ?r1, snd ?r1)" and c2: "?r2 = (fst ?r2, snd ?r2)"
    by simp_all
  have env: "(0::rat) \<le> 0 \<and> 0 \<le> sleep_overrun quiet_env \<and> 0 \<le> lag quiet_env"
    by (simp add: quiet_env_def)
  have v: "last_request_time (fst ?r1) = 1" "last_request_time (fst ?r2) = 2"
    "clock world0 - last_request_time scraper0 < request_delay scraper0"
    "request_delay scraper0 - (clock world0 - last_request_time scraper0) = 1"
    by (simp_all add: rate_limit_request_def time_sleep_def logger_def Let_def quiet_env_def
          scraper0_def world0_def)
  have i: "NBADataScraper_init quiet_env ''2024-25'' ''Regular Season'' world0 =
      (Inr scraper0, snd (NBADataScraper_init quiet_env ''2024-25'' ''Regular Season'' world0))"
    using init_scraper0 by (metis prod.collapse)
  from rate_limit_spacing[OF c1, of 0 quiet_env "fst ?r2" "snd ?r2" quiet_env "''2024-25''"
      "''Regular Season''" world0
      "snd (NBADataScraper_init quiet_env ''2024-25'' ''Regular Season'' world0)"] c2 env i
  have "slept (snd ?r1) = slept world0 @ [1] \<and>
        last_request_time (fst ?r1) + request_delay scraper0 \<le> last_request_time (fst ?r2) \<and>
        request_delay scraper0 = 1"
    by (simp add: v(3,4))
  with env v(1,2) init_scraper0 show ?thesis by simp
qed



text \<open>
  C6. The BoxScore \<open>get_box_score\<close> returns has both tables empty (each the frame
  \<open>pd.DataFrame()\<close>) or both non-empty; when the source delivers the two tables and one of
  them is empty, both returned tables are empty.
\<close>

theorem box_score_all_or_nothing:
  "((player_stats (fst (get_box_score ev self game_id save w)) = DataFrame_new \<and>
     team_stats (fst (get_box_score ev self game_id save w)) = DataFrame_new) \<or>
    (\<not> df_empty (player_stats (fst (get_box_score ev self game_id save w))) \<and>
     \<not> df_empty (team_stats (fst (get_box_score ev self game_id save w))))) \<and>
   (box_score_frames ev game_id = Inr (ps, ts) \<and> (df_empty ps \<or> df_empty ts) \<longrightarrow>
      fst (get_box_score ev self game_id save w) =
        \<lparr>player_stats = DataFrame_new, team_stats = DataFrame_new\<rparr>)"
  unfolding get_box_score_def box_score_try_def
  by (auto simp: Let_def split: prod.splits sum.splits if_splits option.splits)

theorem box_score_all_or_nothing_witness:
  "box_score_frames one_table_env ''0022400001'' =
     Inr ([(''TEAM_ID'', NumCol [Fin 1]), (''PTS'', NumCol [Fin 30])], []) \<and>
   \<not> df_empty [(''TEAM_ID'', NumCol [Fin 1]), (''PTS'', NumCol [Fin 30])] \<and>
   df_empty [] \<and>
   fst (get_box_score one_table_env scraper0 ''0022400001'' True world0) =
     \<lparr>player_stats = DataFrame_new, team_stats = DataFrame_new\<rparr>"
proof -
  have f: "box_score_frames one_table_env ''0022400001'' =
     Inr ([(''TEAM_ID'', NumCol [Fin 1]), (''PTS'', NumCol [Fin 30])], [])"
    by (simp add: one_table_env_def box_score_frames_def bind_exn_def quiet_env_def)
  have e: "df_empty []" and ne: "\<not> df_empty [(''TEAM_ID'', NumCol [Fin 1]), (''PTS'', NumCol [Fin 30])]"
    by (simp_all add: df_empty_def nrows_def)
  from box_score_all_or_nothing[of one_table_env scraper0 "''0022400001''" True world0
      "[(''TEAM_ID'', NumCol [Fin 1]), (''PTS'', NumCol [Fin 30])]" "[]"] f e
  have "fst (get_box_score one_table_env scraper0 ''0022400001'' True world0) =
     \<lparr>player_stats = DataFrame_new, team_stats = DataFrame_new\<rparr>"
    by blast
  with f e ne show ?thesis by blast
qed

text \<open>
  C7. \<open>get_player_id_by_name\<close> returns the first entry of the first search that finds
  anything, in this order: the search by full name; when that finds nothing, the search by
  first name with the first whitespace-delimited token; when that finds nothing either and
  the name has more than one token, the search by last name with the last token. With one
  token the third search is not made. When the search that answers finds several players,
  the first of its list is returned and two WARNING records are logged before the INFO
  record; with one player only the INFO record is logged. The searches are those of
  \<open>nba_api\<close>, taken as given: their lists are in the order of its static table. The
  tokens are those of \<open>str.split()\<close>: at the witness a name with a no-break space between
  its two words has the two tokens of the name with a blank.
\<close>

theorem player_resolution_order:
  "(find_players_by_full_name ev name = Inr (p # ps) \<longrightarrow>
      fst (get_player_id_by_name ev name w) = Some (id' p) \<and>
      new_levels w (snd (get_player_id_by_name ev name w)) =
        (if ps = [] then [INFO] else [WARNING, WARNING, INFO])) \<and>
   (find_players_by_full_name ev name = Inr [] \<and> py_split name = t # ts \<and>
    find_players_by_first_name ev t = Inr (p # ps) \<longrightarrow>
      fst (get_player_id_by_name ev name w) = Some (id' p) \<and>
      new_levels w (snd (get_player_id_by_name ev name w)) =
        (if ps = [] then [INFO] else [WARNING, WARNING, INFO])) \<and>
   (find_players_by_full_name ev name = Inr [] \<and> py_split name = t # ts \<and> ts \<noteq> [] \<and>
    find_players_by_first_name ev t = Inr [] \<and>
    find_players_by_last_name ev (last ts) = Inr (p # ps) \<longrightarrow>
      fst (get_player_id_by_name ev name w) = Some (id' p) \<and>
      new_levels w (snd (get_player_id_by_name ev name w)) =
        (if ps = [] then [INFO] else [WARNING, WARNING, INFO])) \<and>
   (find_players_by_full_name ev name = Inr [] \<and> py_split name = [t] \<and>
    find_players_by_first_name ev t = Inr [] \<longrightarrow>
      fst (get_player_id_by_name ev name w) = None)"
proof (intro conjI impI)
  assume "find_players_by_full_name ev name = Inr (p # ps)"
  then have "player_matches ev name = Inr (p # ps)"
    by (simp add: player_matches_def bind_exn_def)
  from resolved_first[OF this]
  show "fst (get_player_id_by_name ev name w) = Some (id' p)"
    and "new_levels w (snd (get_player_id_by_name ev name w)) =
        (if ps = [] then [INFO] else [WARNING, WARNING, INFO])"
    by simp_all
next
  assume "find_players_by_full_name ev name = Inr [] \<and> py_split name = t # ts \<and>
    find_players_by_first_name ev t = Inr (p # ps)"
  then have "player_matches ev name = Inr (p # ps)"
    by (simp add: player_matches_def bind_exn_def index0_def)
  from resolved_first[OF this]
  show "fst (get_player_id_by_name ev name w) = Some (id' p)"
    and "new_levels w (snd (get_player_id_by_name ev name w)) =
        (if ps = [] then [INFO] else [WARNING, WARNING, INFO])"
    by simp_all
next
  assume "find_players_by_full_name ev name = Inr [] \<and> py_split name = t # ts \<and> ts \<noteq> [] \<and>
    find_players_by_first_name ev t = Inr [] \<and>
    find_players_by_last_name ev (last ts) = Inr (p # ps)"
  then have "player_matches ev name = Inr (p # ps)"
    by (simp add: player_matches_def bind_exn_def index0_def)
  from resolved_first[OF this]
  show "fst (get_player_id_by_name ev name w) = Some (id' p)"
    and "new_levels w (snd (get_player_id_by_name ev name w)) =
        (if ps = [] then [INFO] else [WARNING, WARNING, INFO])"
    by simp_all
next
  assume "find_players_by_full_name ev name = Inr [] \<and> py_split name = [t] \<and>
    find_players_by_first_name ev t = Inr []"
  then have "player_matches ev name = Inr []"
    by (simp add: player_matches_def bind_exn_def index0_def)
  from resolved_none[OF this]
  show "fst (get_player_id_by_name ev name w) = None"
    by simp
qed

theorem player_resolution_order_witness:
  "find_players_by_full_name roster_env ''LeBron James'' = Inr [lebron] \<and>
   fst (get_player_id_by_name roster_env ''LeBron James'' world0) = Some 2544 \<and>
   new_levels world0 (snd (get_player_id_by_name roster_env ''LeBron James'' world0)) = [INFO] \<and>
   find_players_by_full_name roster_env ''Luka'' = Inr [] \<and> py_split ''Luka'' = [''Luka''] \<and>
   find_players_by_first_name roster_env ''Luka'' = Inr [luka] \<and>
   fst (get_player_id_by_name roster_env ''Luka'' world0) = Some 1629029 \<and>
   new_levels world0 (snd (get_player_id_by_name roster_env ''Luka'' world0)) = [INFO] \<and>
   find_players_by_full_name roster_env ''Steph Curry'' = Inr [] \<and>
   py_split ''Steph Curry'' = [''Steph'', ''Curry''] \<and>
   find_players_by_first_name roster_env ''Steph'' = Inr [] \<and>
   find_players_by_last_name roster_env ''Curry'' = Inr [stephen, seth] \<and>
   fst (get_player_id_by_name roster_env ''Steph Curry'' world0) = Some 201939 \<and>
   new_levels world0 (snd (get_player_id_by_name roster_env ''Steph Curry'' world0)) =
     [WARNING, WARNING, INFO] \<and>
   find_players_by_full_name roster_env ''Curry'' = Inr [] \<and> py_split ''Curry'' = [''Curry''] \<and>
   find_players_by_first_name roster_env ''Curry'' = Inr [] \<and>
   fst (get_player_id_by_name roster_env ''Curry'' world0) = None \<and>
   find_players_by_full_name roster_env (''Steph'' @ [CHR 0xA0] @ ''Curry'') = Inr [] \<and>
   py_split (''Steph'' @ [CHR 0xA0] @ ''Curry'') = [''Steph'', ''Curry''] \<and>
   fst (get_player_id_by_name roster_env (''Steph'' @ [CHR 0xA0] @ ''Curry'') world0) = Some 201939"
proof -
  have h1: "find_players_by_full_name roster_env ''LeBron James'' = Inr (lebron # [])"
    by (simp add: roster_env_def)
  have h2: "find_players_by_full_name roster_env ''Luka'' = Inr [] \<and> py_split ''Luka'' = ''Luka'' # [] \<and>
      find_players_by_first_name roster_env ''Luka'' = Inr (luka # [])"
    by (simp add: roster_env_def split_defs)
  have h3: "find_players_by_full_name roster_env ''Steph Curry'' = Inr [] \<and>
      py_split ''Steph Curry'' = ''Steph'' # [''Curry''] \<and> [''Curry''] \<noteq> [] \<and>
      find_players_by_first_name roster_env ''Steph'' = Inr [] \<and>
      find_players_by_last_name roster_env (last [''Curry'']) = Inr (stephen # [seth])"
    by (simp add: roster_env_def split_defs)
  have h4: "find_players_by_full_name roster_env ''Curry'' = Inr [] \<and> py_split ''Curry'' = [''Curry''] \<and>
      find_players_by_first_name roster_env ''Curry'' = Inr []"
    by (simp add: roster_env_def split_defs)
  have h5: "find_players_by_full_name roster_env (''Steph'' @ [CHR 0xA0] @ ''Curry'') = Inr [] \<and>
      py_split (''Steph'' @ [CHR 0xA0] @ ''Curry'') = ''Steph'' # [''Curry''] \<and> [''Curry''] \<noteq> [] \<and>
      find_players_by_first_name roster_env ''Steph'' = Inr [] \<and>
      find_players_by_last_name roster_env (last [''Curry'']) = Inr (stephen # [seth])"
    by (simp add: roster_env_def split_defs)
  from player_resolution_order[of roster_env "''Steph'' @ [CHR 0xA0] @ ''Curry''" stephen "[seth]" world0
      "''Steph''" "[''Curry'']"] h5
  have 5: "fst (get_player_id_by_name roster_env (''Steph'' @ [CHR 0xA0] @ ''Curry'') world0) = Some (id' stephen)"
    by simp
  from player_resolution_order[of roster_env "''LeBron James''" lebron "[]" world0] h1
  have 1: "fst (get_player_id_by_name roster_env ''LeBron James'' world0) = Some (id' lebron) \<and>
      new_levels world0 (snd (get_player_id_by_name roster_env ''LeBron James'' world0)) = [INFO]"
    by simp
  from player_resolution_order[of roster_env "''Luka''" luka "[]" world0 "''Luka''" "[]"] h2
  have 2: "fst (get_player_id_by_name roster_env ''Luka'' world0) = Some (id' luka) \<and>
      new_levels world0 (snd (get_player_id_by_name roster_env ''Luka'' world0)) = [INFO]"
    by simp
  from player_resolution_order[of roster_env "''Steph Curry''" stephen "[seth]" world0 "''Steph''" "[''Curry'']"] h3
  have 3: "fst (get_player_id_by_name roster_env ''Steph Curry'' world0) = Some (id' stephen) \<and>
      new_levels world0 (snd (get_player_id_by_name roster_env ''Steph Curry'' world0)) =
        [WARNING, WARNING, INFO]"
    by simp
  from player_resolution_order[of roster_env "''Curry''" lebron "[]" world0 "''Curry''" "[]"] h4
  have 4: "fst (get_player_id_by_name roster_env ''Curry'' world0) = None"
    by simp
  from 1 2 3 4 5 h1 h2 h3 h4 h5 show ?thesis
    by (simp add: lebron_def luka_def stephen_def)
qed

text \<open>
  C8, as the code has it. The specification has the empty string and every name of
  whitespace only resolve to \<open>None\<close>. The method has no check of its own on the name: it
  hands the name to the full-name search first and returns the first entry that search
  finds. The search of \<open>nba_api\<close> looks for the name as a pattern inside each full name, so
  the empty string is found in every entry and a single blank in every entry with a blank:
  both resolve to the first player of the table, 76001.
\<close>

theorem blank_name_counterexample:
  "list_all is_space '''' \<and>
   fst (get_player_id_by_name library_env '''' world0) = Some 76001 \<and>
   list_all is_space '' '' \<and>
   fst (get_player_id_by_name library_env '' '' world0) = Some 76001"
proof -
  have "find_players_by_full_name library_env '''' = Inr players_table"
    "find_players_by_full_name library_env '' '' = Inr players_table"
    by (simp_all add: library_env_def find_players_def players_table_def roster_defs lower_def)
  then show ?thesis
    by (simp add: get_player_id_by_name_def player_matches_def bind_exn_def players_table_def
          alaa_def is_space_def Let_def)
qed

text \<open>
  C8, amended. When the searches find nothing, \<open>get_player_id_by_name\<close> returns \<open>None\<close> and
  logs an ERROR record: for a name without tokens (the empty string or whitespace only) for
  which the full-name search finds nothing (there \<open>split()[0]\<close> raises IndexError, which
  the method catches), for a name of one token, and for a name of several tokens. A name
  without tokens for which the full-name search finds entries resolves to the first of
  them. Whatever a search raises is caught: the method returns \<open>None\<close> with an ERROR record
  and raises nothing to the caller. At the witness, with the search of \<open>nba_api\<close>, a tab
  and two blanks resolve to \<open>None\<close> and a single blank resolves to 76001.
\<close>

theorem player_not_found:
  "(find_players_by_full_name ev name = Inr [] \<and> list_all is_space name \<longrightarrow>
      fst (get_player_id_by_name ev name w) = None \<and>
      logged (snd (get_player_id_by_name ev name w)) =
        logged w @ [(ERROR, ''Error finding player ID for {player_name}: {str(e)}'', [T name, E IndexError])]) \<and>
   (find_players_by_full_name ev name = Inr [] \<and> py_split name = [t] \<and>
    find_players_by_first_name ev t = Inr [] \<longrightarrow>
      fst (get_player_id_by_name ev name w) = None \<and>
      logged (snd (get_player_id_by_name ev name w)) =
        logged w @ [(ERROR, ''No player found with name {player_name}'', [T name])]) \<and>
   (find_players_by_full_name ev name = Inr [] \<and> py_split name = t # ts \<and> ts \<noteq> [] \<and>
    find_players_by_first_name ev t = Inr [] \<and> find_players_by_last_name ev (last ts) = Inr [] \<longrightarrow>
      fst (get_player_id_by_name ev name w) = None \<and>
      logged (snd (get_player_id_by_name ev name w)) =
        logged w @ [(ERROR, ''No player found with name {player_name}'', [T name])]) \<and>
   (find_players_by_full_name ev name = Inr (p # ps) \<and> list_all is_space name \<longrightarrow>
      fst (get_player_id_by_name ev name w) = Some (id' p)) \<and>
   (player_matches ev name = Inl e \<longrightarrow>
      fst (get_player_id_by_name ev name w) = None \<and>
      logged (snd (get_player_id_by_name ev name w)) =
        logged w @ [(ERROR, ''Error finding player ID for {player_name}: {str(e)}'', [T name, E e])])"
proof (intro conjI impI)
  assume "find_players_by_full_name ev name = Inr [] \<and> list_all is_space name"
  then have "player_matches ev name = Inl IndexError"
    by (simp add: player_matches_def bind_exn_def index0_def py_split_def split_from_spaces)
  then show "fst (get_player_id_by_name ev name w) = None"
    and "logged (snd (get_player_id_by_name ev name w)) =
        logged w @ [(ERROR, ''Error finding player ID for {player_name}: {str(e)}'', [T name, E IndexError])]"
    by (simp_all add: get_player_id_by_name_def logger_def)
next
  assume "find_players_by_full_name ev name = Inr [] \<and> py_split name = [t] \<and>
    find_players_by_first_name ev t = Inr []"
  then have "player_matches ev name = Inr []"
    by (simp add: player_matches_def bind_exn_def index0_def)
  then show "fst (get_player_id_by_name ev name w) = None"
    and "logged (snd (get_player_id_by_name ev name w)) =
        logged w @ [(ERROR, ''No player found with name {player_name}'', [T name])]"
    by (simp_all add: get_player_id_by_name_def logger_def)
next
  assume "find_players_by_full_name ev name = Inr [] \<and> py_split name = t # ts \<and> ts \<noteq> [] \<and>
    find_players_by_first_name ev t = Inr [] \<and> find_players_by_last_name ev (last ts) = Inr []"
  then have "player_matches ev name = Inr []"
    by (simp add: player_matches_def bind_exn_def index0_def)
  then show "fst (get_player_id_by_name ev name w) = None"
    and "logged (snd (get_player_id_by_name ev name w)) =
        logged w @ [(ERROR, ''No player found with name {player_name}'', [T name])]"
    by (simp_all add: get_player_id_by_name_def logger_def)
next
  assume "find_players_by_full_name ev name = Inr (p # ps) \<and> list_all is_space name"
  then have "player_matches ev name = Inr (p # ps)"
    by (simp add: player_matches_def bind_exn_def)
  from resolved_first[OF this] show "fst (get_player_id_by_name ev name w) = Some (id' p)"
    by simp
next
  assume "player_matches ev name = Inl e"
  then show "fst (get_player_id_by_name ev name w) = None"
    and "logged (snd (get_player_id_by_name ev name w)) =
        logged w @ [(ERROR, ''Error finding player ID for {player_name}: {str(e)}'', [T name, E e])]"
    by (simp_all add: get_player_id_by_name_def logger_def)
qed

theorem player_not_found_witness:
  "find_players_by_full_name library_env [CHR 0x09] = Inr [] \<and> list_all is_space [CHR 0x09] \<and>
   fst (get_player_id_by_name library_env [CHR 0x09] world0) = None \<and>
   find_players_by_full_name library_env ''  '' = Inr [] \<and> list_all is_space ''  '' \<and>
   fst (get_player_id_by_name library_env ''  '' world0) = None \<and>
   logged (snd (get_player_id_by_name library_env ''  '' world0)) =
     [(ERROR, ''Error finding player ID for {player_name}: {str(e)}'', [T ''  '', E IndexError])] \<and>
   player_matches library_env ''  '' = Inl IndexError \<and>
   py_split ''Nobody'' = [''Nobody''] \<and> find_players_by_first_name library_env ''Nobody'' = Inr [] \<and>
   fst (get_player_id_by_name library_env ''Nobody'' world0) = None \<and>
   py_split ''Zyx Wvu'' = [''Zyx'', ''Wvu''] \<and> find_players_by_last_name library_env ''Wvu'' = Inr [] \<and>
   fst (get_player_id_by_name library_env ''Zyx Wvu'' world0) = None \<and>
   logged (snd (get_player_id_by_name library_env ''Zyx Wvu'' world0)) =
     [(ERROR, ''No player found with name {player_name}'', [T ''Zyx Wvu''])] \<and>
   find_players_by_full_name library_env '' '' = Inr players_table \<and> list_all is_space '' '' \<and>
   fst (get_player_id_by_name library_env '' '' world0) = Some 76001"
proof -
  have full: "find_players_by_full_name library_env [CHR 0x09] = Inr []"
    "find_players_by_full_name library_env ''  '' = Inr []"
    "find_players_by_full_name library_env ''Nobody'' = Inr []"
    "find_players_by_full_name library_env ''Zyx Wvu'' = Inr []"
    "find_players_by_full_name library_env '' '' = Inr (alaa # tl players_table)"
    and others: "find_players_by_first_name library_env ''Nobody'' = Inr []"
    "find_players_by_first_name library_env ''Zyx'' = Inr []"
    "find_players_by_last_name library_env ''Wvu'' = Inr []"
    by (simp_all add: library_env_def find_players_def players_table_def roster_defs lower_def)
  have sp: "list_all is_space [CHR 0x09]" "list_all is_space ''  ''" "list_all is_space '' ''"
    "py_split ''Nobody'' = [''Nobody'']" "py_split ''Zyx Wvu'' = ''Zyx'' # [''Wvu'']"
    by (simp_all add: split_defs)
  have raised: "player_matches library_env ''  '' = Inl IndexError"
    using full(2) by (simp add: player_matches_def bind_exn_def index0_def split_defs)
  have w0: "logged world0 = []"
    by (simp add: world0_def)
  from player_not_found[of library_env "[CHR 0x09]" world0 "[]" "[]"] full sp
  have 1: "fst (get_player_id_by_name library_env [CHR 0x09] world0) = None"
    by simp
  from player_not_found[of library_env "''  ''" world0 "[]" "[]" alaa "[]" IndexError] full sp raised
  have 2: "fst (get_player_id_by_name library_env ''  '' world0) = None \<and>
      logged (snd (get_player_id_by_name library_env ''  '' world0)) =
        [(ERROR, ''Error finding player ID for {player_name}: {str(e)}'', [T ''  '', E IndexError])]"
    by (simp add: w0)
  from player_not_found[of library_env "''Nobody''" world0 "''Nobody''" "[]"] full others sp
  have 3: "fst (get_player_id_by_name library_env ''Nobody'' world0) = None"
    by simp
  from player_not_found[of library_env "''Zyx Wvu''" world0 "''Zyx''" "[''Wvu'']"] full others sp
  have 4: "fst (get_player_id_by_name library_env ''Zyx Wvu'' world0) = None \<and>
      logged (snd (get_player_id_by_name library_env ''Zyx Wvu'' world0)) =
        [(ERROR, ''No player found with name {player_name}'', [T ''Zyx Wvu''])]"
    by (simp add: w0)
  from player_not_found[of library_env "'' ''" world0 _ _ alaa "tl players_table"] full sp
  have 5: "fst (get_player_id_by_name library_env '' '' world0) = Some (id' alaa)"
    by simp
  from 1 2 3 4 5 full others sp raised show ?thesis
    by (simp add: alaa_def players_table_def)
qed

text \<open>
  C9. In every frame \<open>get_player_game_log\<close> returns, a row whose TRIPLE_DOUBLE is 1 has
  DOUBLE_DOUBLE 1, whatever the five statistics are.
\<close>

theorem triple_double_implies_double_double:
  assumes "cell (fst (get_player_game_log ev self player_id save w)) ''TRIPLE_DOUBLE'' i = Some (N (Fin 1))"
  shows "cell (fst (get_player_game_log ev self player_id save w)) ''DOUBLE_DOUBLE'' i = Some (N (Fin 1))"
proof -
  let ?out = "fst (get_player_game_log ev self player_id save w)"
  from assms have "?out \<noteq> []"
    by (auto simp: cell_def bind_exn_def getitem_def)
  from player_log_nonempty[OF refl this] obtain raw where
    "derived_columns (setitem raw ''PLAYER_ID'' (broadcast raw player_id)) = Inr ?out"
    by blast
  from derived_columns_flags[OF this] obtain counts where
    dd: "getitem ?out ''DOUBLE_DOUBLE'' = Inr (at_least 2 counts)" and
    td: "getitem ?out ''TRIPLE_DOUBLE'' = Inr (at_least 3 counts)"
    by blast
  from assms have "i < length counts \<and> 3 \<le> counts ! i"
    by (simp add: cell_at_least_iff[OF td])
  then have "i < length counts \<and> 2 \<le> counts ! i" by simp
  then show ?thesis by (simp add: cell_at_least_iff[OF dd])
qed

theorem triple_double_implies_double_double_witness:
  "cell (fst (get_player_game_log (player_log_env two_games) scraper0 23 False world0))
     ''TRIPLE_DOUBLE'' 1 = Some (N (Fin 1)) \<and>
   cell (fst (get_player_game_log (player_log_env two_games) scraper0 23 False world0))
     ''DOUBLE_DOUBLE'' 1 = Some (N (Fin 1))"
proof -
  have td: "cell (fst (get_player_game_log (player_log_env two_games) scraper0 23 False world0))
     ''TRIPLE_DOUBLE'' 1 = Some (N (Fin 1))"
    unfolding two_games_out
    by (simp add: two_games_def cell_def getitem_def bind_exn_def iloc_def)
  from triple_double_implies_double_double[OF td] td show ?thesis by simp
qed

text \<open>
  C10, as the code has it. Read for every non-empty response, "the raw rows with one added
  TEAM_ID column and no raw field modified" fails on two runs: when the save is requested
  and \<open>to_csv\<close> raises, the fetch returns the empty frame; and a raw frame that already
  has a TEAM_ID column (5 below) gets it overwritten with the requested identifier (7),
  with no column added.
\<close>

theorem team_log_counterexample:
  "TeamGameLog full_disk_env 1610612747 (season scraper0) (season_type scraper0) = Inr [team_log] \<and>
   \<not> df_empty team_log \<and>
   fst (get_team_game_log full_disk_env scraper0 1610612747 True world0) = DataFrame_new \<and>
   fst (get_team_game_log (team_log_env tagged_log) scraper0 7 False world0) =
     [(''TEAM_ID'', NumCol [Fin 7]), (''PTS'', NumCol [Fin 99])]"
  by (simp add: get_team_game_log_def team_game_log_try_def save_csv_def rate_limit_request_def
        time_sleep_def logger_def Let_def bind_exn_def index0_def df_empty_def nrows_def
        DataFrame_new_def broadcast_def team_log_def tagged_log_def full_disk_env_def
        team_log_env_def quiet_env_def scraper0_def world0_def)

text \<open>
  C10, amended. For every non-empty team game-log response: when no save is requested or
  \<open>to_csv\<close> succeeds, the fetch returns the raw frame with the column TEAM_ID holding the
  requested identifier in every row, appended as the last column when the raw frame has no
  such column and overwritten in place when it has one; every other column is returned as
  received and no other column (DOUBLE_DOUBLE, TRIPLE_DOUBLE, a percentage) is added. When
  the save is requested and \<open>to_csv\<close> raises, the fetch returns the empty frame.
\<close>

theorem team_log_frame:
  assumes "TeamGameLog ev team_id (season self) (season_type self) = Inr (raw # others)"
    and "\<not> df_empty raw"
    and "fst (get_team_game_log ev self team_id save w) = out"
  shows "(\<not> save \<or> to_csv ev (team_file_path self team_id)
                      (setitem raw ''TEAM_ID'' (broadcast raw team_id)) = None \<longrightarrow>
            map fst out = (if in_columns ''TEAM_ID'' raw then map fst raw else map fst raw @ [''TEAM_ID'']) \<and>
            getitem out ''TEAM_ID'' = Inr (NumCol (replicate (nrows raw) (Fin (of_int team_id)))) \<and>
            (\<forall>k. k \<noteq> ''TEAM_ID'' \<longrightarrow> getitem out k = getitem raw k)) \<and>
         (save \<and> to_csv ev (team_file_path self team_id)
                    (setitem raw ''TEAM_ID'' (broadcast raw team_id)) \<noteq> None \<longrightarrow>
            out = DataFrame_new)"
  using team_log_result[OF assms(1,2), of save w] assms(3)
  by (auto simp: getitem_setitem columns_setitem in_columns_def broadcast_def)

theorem team_log_frame_witness:
  "TeamGameLog (team_log_env team_log) 1610612747 (season scraper0)
     (season_type scraper0) = Inr (team_log # []) \<and>
   \<not> df_empty team_log \<and>
   to_csv (team_log_env team_log) (team_file_path scraper0 1610612747)
     (setitem team_log ''TEAM_ID'' (broadcast team_log 1610612747)) = None \<and>
   map fst (fst (get_team_game_log (team_log_env team_log) scraper0 1610612747 True world0))
     = [''Team_ID'', ''Game_ID'', ''PTS'', ''REB'', ''AST'', ''STL'', ''BLK'', ''FGM'', ''FGA'', ''TEAM_ID''] \<and>
   getitem (fst (get_team_game_log (team_log_env team_log) scraper0 1610612747 True world0))
     ''TEAM_ID'' = Inr (NumCol [Fin 1610612747, Fin 1610612747]) \<and>
   getitem (fst (get_team_game_log (team_log_env team_log) scraper0 1610612747 True world0))
     ''PTS'' = getitem team_log ''PTS'' \<and>
   getitem (fst (get_team_game_log (team_log_env team_log) scraper0 1610612747 True world0))
     ''DOUBLE_DOUBLE'' = Inl (KeyError ''DOUBLE_DOUBLE'')"
proof -
  let ?ev = "team_log_env team_log"
  let ?out = "fst (get_team_game_log ?ev scraper0 1610612747 True world0)"
  have api: "TeamGameLog ?ev 1610612747 (season scraper0) (season_type scraper0) = Inr (team_log # [])"
    by simp
  have ne: "\<not> df_empty team_log"
    by (simp add: df_empty_def nrows_def team_log_def)
  have ok: "to_csv ?ev (team_file_path scraper0 1610612747)
     (setitem team_log ''TEAM_ID'' (broadcast team_log 1610612747)) = None"
    by (simp add: quiet_env_def)
  have raw: "\<not> in_columns ''TEAM_ID'' team_log"
    "map fst team_log = [''Team_ID'', ''Game_ID'', ''PTS'', ''REB'', ''AST'', ''STL'', ''BLK'', ''FGM'', ''FGA'']"
    "nrows team_log = 2" "getitem team_log ''DOUBLE_DOUBLE'' = Inl (KeyError ''DOUBLE_DOUBLE'')"
    by (simp_all add: team_log_def in_columns_def nrows_def getitem_def)
  from team_log_frame[OF api ne refl, of True world0] ok
  have "map fst ?out = (if in_columns ''TEAM_ID'' team_log then map fst team_log else map fst team_log @ [''TEAM_ID''])"
    and "getitem ?out ''TEAM_ID'' = Inr (NumCol (replicate (nrows team_log) (Fin (of_int 1610612747))))"
    and "getitem ?out ''PTS'' = getitem team_log ''PTS''"
    and "getitem ?out ''DOUBLE_DOUBLE'' = getitem team_log ''DOUBLE_DOUBLE''"
    by simp_all
  with api ne ok show ?thesis
    by (simp add: raw numeral_2_eq_2)
qed

end
